theory Spec2Isabelle
  imports Complex_Main
begin

section \<open>Numeric model\<close>

text \<open>
  The repository computes with Python floats and numpy \<open>float64\<close> arrays. Here every
  floating-point number is a \<^typ>\<open>real\<close> (exact arithmetic, no rounding, no NaN and no
  infinities) and every Python \<open>int\<close> is an \<^typ>\<open>int\<close>. The library functions the code
  calls (\<open>math.atan2\<close>, \<open>math.asin\<close>, \<open>math.sqrt\<close>, \<open>math.copysign\<close>, \<open>math.radians\<close>,
  \<open>np.linalg.norm\<close>, \<open>int()\<close>, \<open>collections.deque\<close>) are given by their documented
  mathematical meaning. Whatever can raise in Python is a value of \<open>py_error + 'a\<close>.
\<close>

datatype py_error = ValueError | ZeroDivisionError | NumpyDivideByZero

definition and_then :: "py_error + 'a \<Rightarrow> ('a \<Rightarrow> py_error + 'b) \<Rightarrow> py_error + 'b" where
  "and_then m f = (case m of Inl e \<Rightarrow> Inl e | Inr v \<Rightarrow> f v)"

text \<open>Python's \<open>a / b\<close> on floats: raises \<open>ZeroDivisionError\<close> when \<open>b\<close> is zero.\<close>

definition py_truediv :: "real \<Rightarrow> real \<Rightarrow> py_error + real" where
  "py_truediv a b = (if b = 0 then Inl ZeroDivisionError else Inr (a / b))"

text \<open>\<open>math.sqrt\<close> raises \<open>ValueError\<close> on a negative argument.\<close>

definition math_sqrt :: "real \<Rightarrow> py_error + real" where
  "math_sqrt v = (if v < 0 then Inl ValueError else Inr (sqrt v))"

text \<open>\<open>math.asin\<close> raises \<open>ValueError\<close> (math domain error) outside \<open>[-1, 1]\<close>.\<close>

definition math_asin :: "real \<Rightarrow> py_error + real" where
  "math_asin v = (if - 1 \<le> v \<and> v \<le> 1 then Inr (arcsin v) else Inl ValueError)"

text \<open>
  \<open>math.atan2 y x\<close>: the angle of the point \<open>(x, y)\<close> in \<open>(-\<pi>, \<pi>]\<close>; \<open>atan2(0, 0)\<close> is \<open>0\<close>.
  It never raises.
\<close>

definition math_atan2 :: "real \<Rightarrow> real \<Rightarrow> real" where
  "math_atan2 y x =
     (if 0 < x then arctan (y / x)
      else if x < 0 then (if 0 \<le> y then arctan (y / x) + pi else arctan (y / x) - pi)
      else if 0 < y then pi / 2
      else if y < 0 then - (pi / 2)
      else 0)"

text \<open>\<open>math.copysign a s\<close>: the magnitude of \<open>a\<close> with the sign of \<open>s\<close>.\<close>

definition math_copysign :: "real \<Rightarrow> real \<Rightarrow> real" where
  "math_copysign a s = (if s < 0 then - \<bar>a\<bar> else \<bar>a\<bar>)"

definition math_radians :: "real \<Rightarrow> real" where
  "math_radians d = d * (pi / 180)"

text \<open>\<open>int(v)\<close> on a float truncates toward zero.\<close>

definition py_int :: "real \<Rightarrow> int" where
  "py_int v = (if 0 \<le> v then \<lfloor>v\<rfloor> else \<lceil>v\<rceil>)"

text \<open>
  \<open>deque(maxlen=n).append(v)\<close>: the element goes to the right end and, when the deque
  is longer than \<open>n\<close> afterwards, elements are discarded from the left end.
\<close>

definition deque_append :: "int \<Rightarrow> 'a list \<Rightarrow> 'a \<Rightarrow> 'a list" where
  "deque_append maxlen buf v = (let b = buf @ [v] in drop (length b - nat maxlen) b)"

section \<open>Quaternion algebra (\<open>QuaternionTo2DMotion\<close>, union\_pygame.py)\<close>

type_synonym quat = "real \<times> real \<times> real \<times> real"

definition np_linalg_norm :: "quat \<Rightarrow> real" where
  "np_linalg_norm q = (case q of (w, x, y, z) \<Rightarrow> sqrt (w * w + x * x + y * y + z * z))"

text \<open>
  \<open>q / norm\<close> on a numpy array. numpy does not raise on a zero divisor but yields
  \<open>inf\<close>/\<open>nan\<close> with a warning; neither is a real number, so the event is an error value.
\<close>

definition np_divide :: "quat \<Rightarrow> real \<Rightarrow> py_error + quat" where
  "np_divide q n =
     (case q of (w, x, y, z) \<Rightarrow>
        if n = 0 then Inl NumpyDivideByZero else Inr (w / n, x / n, y / n, z / n))"

definition normalize_quaternion :: "quat \<Rightarrow> py_error + quat" where
  "normalize_quaternion q =
     (let norm = np_linalg_norm q
      in if norm = 0 then Inr (1, 0, 0, 0) else np_divide q norm)"

definition quaternion_conjugate :: "quat \<Rightarrow> quat" where
  "quaternion_conjugate q = (case q of (w, x, y, z) \<Rightarrow> (w, - x, - y, - z))"

definition quaternion_multiply :: "quat \<Rightarrow> quat \<Rightarrow> quat" where
  "quaternion_multiply q1 q2 =
     (case q1 of (w1, x1, y1, z1) \<Rightarrow> case q2 of (w2, x2, y2, z2) \<Rightarrow>
        (w1 * w2 - x1 * x2 - y1 * y2 - z1 * z2,
         w1 * x2 + x1 * w2 + y1 * z2 - z1 * y2,
         w1 * y2 - x1 * z2 + y1 * w2 + z1 * x2,
         w1 * z2 + x1 * y2 - y1 * x2 + z1 * w2))"

text \<open>
  The pitch branch shared by every quaternion-to-Euler conversion of the repository
  and by \<open>spherical_method\<close>: \<open>copysign(pi / 2, sinp)\<close> when \<open>abs(sinp) >= 1\<close>,
  \<open>math.asin(sinp)\<close> otherwise.
\<close>

definition pitch_of_sinp :: "real \<Rightarrow> py_error + real" where
  "pitch_of_sinp sinp =
     (if \<bar>sinp\<bar> \<ge> 1 then Inr (math_copysign (pi / 2) sinp) else math_asin sinp)"

text \<open>
  \<open>_quaternion_to_euler\<close> of union\_pygame.py; \<open>quaternion_to_euler\<close> of Euler.py and of
  comparing.py have the same body.
\<close>

definition quaternion_to_euler :: "quat \<Rightarrow> py_error + (real \<times> real \<times> real)" where
  "quaternion_to_euler q =
     (case q of (w, x, y, z) \<Rightarrow>
        let sinr_cosp = 2 * (w * x + y * z);
            cosr_cosp = 1 - 2 * (x * x + y * y);
            roll = math_atan2 sinr_cosp cosr_cosp;
            sinp = 2 * (w * y - z * x)
        in and_then (pitch_of_sinp sinp) (\<lambda>pitch.
             let siny_cosp = 2 * (w * z + x * y);
                 cosy_cosp = 1 - 2 * (y * y + z * z);
                 yaw = math_atan2 siny_cosp cosy_cosp
             in Inr (roll, pitch, yaw)))"

definition calculate_delta_quaternion :: "quat \<Rightarrow> quat \<Rightarrow> py_error + quat" where
  "calculate_delta_quaternion current_q previous_q =
     (let prev_conjugate = quaternion_conjugate previous_q;
          delta_q = quaternion_multiply current_q prev_conjugate
      in normalize_quaternion delta_q)"

section \<open>The delta tracker (\<open>QuaternionTo2DMotion\<close>, union\_pygame.py)\<close>

record motion =
  screen_width :: int
  screen_height :: int
  sensitivity :: real
  prev_quaternion :: "quat option"
  smoothing_window :: int
  delta_buffer :: "(real \<times> real) list"
  screen_x :: real
  screen_y :: real
  deadzone :: real

text \<open>
  \<open>__init__\<close>. \<open>deque(maxlen=smoothing_window)\<close> raises \<open>ValueError\<close> on a negative
  \<open>maxlen\<close>; \<open>//\<close> is floor division.
\<close>

definition motion_init :: "int \<Rightarrow> int \<Rightarrow> real \<Rightarrow> int \<Rightarrow> py_error + motion" where
  "motion_init width height sens window =
     (if window < 0 then Inl ValueError
      else Inr \<lparr> screen_width = width, screen_height = height, sensitivity = sens,
                 prev_quaternion = None, smoothing_window = window, delta_buffer = [],
                 screen_x = real_of_int (width div 2), screen_y = real_of_int (height div 2),
                 deadzone = 0.001 \<rparr>)"

text \<open>
  Lines 116--120 of \<open>update_position\<close>: the average of the buffered deltas, or
  \<open>(0, 0)\<close> for an empty buffer.
\<close>

definition buffer_average :: "(real \<times> real) list \<Rightarrow> py_error + (real \<times> real)" where
  "buffer_average buf =
     (if length buf > 0
      then and_then (py_truediv (sum_list (map fst buf)) (real (length buf))) (\<lambda>avg_delta_x.
           and_then (py_truediv (sum_list (map snd buf)) (real (length buf))) (\<lambda>avg_delta_y.
             Inr (avg_delta_x, avg_delta_y)))
      else Inr (0, 0))"

text \<open>
  Lines 100--110 of \<open>update_position\<close>: the dead zone on pitch and yaw and the scaling
  to \<open>(delta_x, delta_y)\<close>.
\<close>

definition deadzone_delta :: "motion \<Rightarrow> real \<Rightarrow> real \<Rightarrow> real \<times> real" where
  "deadzone_delta s pitch yaw =
     (let delta_pitch = (if \<bar>pitch\<bar> < deadzone s then 0 else pitch);
          delta_yaw = (if \<bar>yaw\<bar> < deadzone s then 0 else yaw);
          delta_x = delta_yaw * sensitivity s;
          delta_y = - delta_pitch * sensitivity s
      in (delta_x, delta_y))"

text \<open>
  Lines 112--133 of \<open>update_position\<close>: buffer the delta, add the average to the
  position, clamp, remember the orientation, return the truncated position.
\<close>

definition accumulate :: "motion \<Rightarrow> quat \<Rightarrow> real \<times> real \<Rightarrow> py_error + ((int \<times> int) \<times> motion)" where
  "accumulate s current_q d =
     (let buf = deque_append (smoothing_window s) (delta_buffer s) d
      in and_then (buffer_average buf) (\<lambda>(avg_delta_x, avg_delta_y).
           let x1 = screen_x s + avg_delta_x;
               y1 = screen_y s + avg_delta_y;
               x2 = max 0 (min (real_of_int (screen_width s - 1)) x1);
               y2 = max 0 (min (real_of_int (screen_height s - 1)) y1)
           in Inr ((py_int x2, py_int y2),
                   s\<lparr> delta_buffer := buf, screen_x := x2, screen_y := y2,
                      prev_quaternion := Some current_q \<rparr>)))"

definition update_position :: "motion \<Rightarrow> quat \<Rightarrow> py_error + ((int \<times> int) \<times> motion)" where
  "update_position s quaternion =
     and_then (normalize_quaternion quaternion) (\<lambda>current_q.
       case prev_quaternion s of
         None \<Rightarrow>
           Inr ((py_int (screen_x s), py_int (screen_y s)),
                s\<lparr> prev_quaternion := Some current_q \<rparr>)
       | Some previous_q \<Rightarrow>
           and_then (calculate_delta_quaternion current_q previous_q) (\<lambda>delta_q.
           and_then (quaternion_to_euler delta_q) (\<lambda>(delta_roll, delta_pitch, delta_yaw).
             accumulate s current_q (deadzone_delta s delta_pitch delta_yaw))))"

definition reset_position :: "motion \<Rightarrow> motion" where
  "reset_position s =
     s\<lparr> screen_x := real_of_int (screen_width s div 2),
        screen_y := real_of_int (screen_height s div 2),
        prev_quaternion := None,
        delta_buffer := [] \<rparr>"

definition set_sensitivity :: "motion \<Rightarrow> real \<Rightarrow> motion" where
  "set_sensitivity s v = s\<lparr> sensitivity := v \<rparr>"

text \<open>
  The caller's loop (\<open>MotionVisualizer.run\<close>): one \<open>update_position\<close> per sample, in order;
  the result lists the returned positions.
\<close>

fun feed :: "motion \<Rightarrow> quat list \<Rightarrow> py_error + ((int \<times> int) list \<times> motion)" where
  "feed s [] = Inr ([], s)"
| "feed s (q # qs) =
     and_then (update_position s q) (\<lambda>(p, s1).
     and_then (feed s1 qs) (\<lambda>(ps, s2). Inr (p # ps, s2)))"

section \<open>The absolute converters (Euler.py and comparing.py)\<close>

text \<open>
  \<open>QuaternionToScreen\<close> (Euler.py) and \<open>ImprovedQuaternionConverter\<close> (comparing.py) have
  the same attributes; they differ in the defaults of their constructors.
\<close>

record converter =
  width :: real
  height :: real
  screen_center_x :: real
  screen_center_y :: real
  max_tilt_radians :: real
  sensitivity_x :: real
  sensitivity_y :: real
  alpha :: real
  prev_x :: real
  prev_y :: real
  dead_zone :: real

text \<open>
  The body both constructors share; \<open>width\<close> and \<open>height\<close> are the attributes
  \<open>screen_width\<close> and \<open>screen_height\<close>. The two divisions by \<open>2 * max_tilt_radians\<close> raise
  \<open>ZeroDivisionError\<close> for a maximum tilt of zero degrees.
\<close>

definition converter_init :: "real \<Rightarrow> real \<Rightarrow> real \<Rightarrow> real \<Rightarrow> real \<Rightarrow> py_error + converter" where
  "converter_init screen_w screen_h max_tilt_degrees a dz =
     (let cx = screen_w / 2;
          cy = screen_h / 2;
          tilt = math_radians max_tilt_degrees
      in and_then (py_truediv screen_w (2 * tilt)) (\<lambda>sx.
         and_then (py_truediv screen_h (2 * tilt)) (\<lambda>sy.
           Inr \<lparr> width = screen_w, height = screen_h,
                 screen_center_x = cx, screen_center_y = cy,
                 max_tilt_radians = tilt, sensitivity_x = sx, sensitivity_y = sy,
                 alpha = a, prev_x = cx, prev_y = cy, dead_zone = dz \<rparr>)))"

text \<open>\<open>QuaternionToScreen.__init__\<close> of Euler.py: \<open>alpha = 0.2\<close>, \<open>dead_zone = 1\<close>.\<close>

definition QuaternionToScreen_init :: "real \<Rightarrow> real \<Rightarrow> real \<Rightarrow> py_error + converter" where
  "QuaternionToScreen_init screen_w screen_h max_tilt_degrees =
     converter_init screen_w screen_h max_tilt_degrees 0.2 1"

text \<open>\<open>ImprovedQuaternionConverter.__init__\<close> of comparing.py: \<open>alpha = 0.7\<close>, \<open>dead_zone = 10\<close>.\<close>

definition ImprovedQuaternionConverter_init :: "real \<Rightarrow> real \<Rightarrow> real \<Rightarrow> py_error + converter" where
  "ImprovedQuaternionConverter_init screen_w screen_h max_tilt_degrees =
     converter_init screen_w screen_h max_tilt_degrees 0.7 10"

text \<open>
  Lines 140--154 of \<open>apply_post_processing\<close>: the dead zone and the optional
  exponential smoothing, which also stores the smoothed point.
\<close>

definition post_unclamped ::
  "converter \<Rightarrow> real \<Rightarrow> real \<Rightarrow> bool \<Rightarrow> py_error + ((real \<times> real) \<times> converter)" where
  "post_unclamped c x0 y0 use_smoothing =
     (let dx = x0 - screen_center_x c;
          dy = y0 - screen_center_y c
      in and_then (math_sqrt (dx * dx + dy * dy)) (\<lambda>distance_from_center.
           let (x1, y1) = (if distance_from_center < dead_zone c
                           then (screen_center_x c, screen_center_y c) else (x0, y0))
           in if use_smoothing
              then (let x2 = alpha c * x1 + (1 - alpha c) * prev_x c;
                        y2 = alpha c * y1 + (1 - alpha c) * prev_y c
                    in Inr ((x2, y2), c\<lparr> prev_x := x2, prev_y := y2 \<rparr>))
              else Inr ((x1, y1), c)))"

text \<open>Lines 156--160 of \<open>apply_post_processing\<close>: the clamp to the screen.\<close>

definition clamp_to_screen :: "converter \<Rightarrow> real \<times> real \<Rightarrow> real \<times> real" where
  "clamp_to_screen c p = (max 0 (min (width c) (fst p)), max 0 (min (height c) (snd p)))"

definition apply_post_processing ::
  "converter \<Rightarrow> real \<Rightarrow> real \<Rightarrow> bool \<Rightarrow> py_error + ((real \<times> real) \<times> converter)" where
  "apply_post_processing c x0 y0 use_smoothing =
     and_then (post_unclamped c x0 y0 use_smoothing) (\<lambda>(p, c1). Inr (clamp_to_screen c p, c1))"

text \<open>The point \<open>euler_method\<close> hands to \<open>apply_post_processing\<close>.\<close>

definition euler_raw :: "converter \<Rightarrow> quat \<Rightarrow> py_error + (real \<times> real)" where
  "euler_raw c q =
     and_then (quaternion_to_euler q) (\<lambda>(roll, pitch, yaw).
       let roll_clamped = max (- max_tilt_radians c) (min (max_tilt_radians c) roll);
           pitch_clamped = max (- max_tilt_radians c) (min (max_tilt_radians c) pitch);
           x0 = screen_center_x c + (roll_clamped * sensitivity_x c);
           y0 = screen_center_y c - (pitch_clamped * sensitivity_y c)
       in Inr (x0, y0))"

definition euler_method ::
  "converter \<Rightarrow> quat \<Rightarrow> bool \<Rightarrow> py_error + ((real \<times> real) \<times> converter)" where
  "euler_method c q use_smoothing =
     and_then (euler_raw c q) (\<lambda>(x0, y0). apply_post_processing c x0 y0 use_smoothing)"

definition direct_method ::
  "converter \<Rightarrow> quat \<Rightarrow> bool \<Rightarrow> py_error + ((real \<times> real) \<times> converter)" where
  "direct_method c q use_smoothing =
     (case q of (w, x, y, z) \<Rightarrow>
        let x0 = screen_center_x c + (x * sensitivity_x c * 2);
            y0 = screen_center_y c + (y * sensitivity_y c * 2)
        in apply_post_processing c x0 y0 use_smoothing)"

text \<open>The rows of the rotation matrix, and \<open>R @ v\<close> for a 3-vector.\<close>

definition quaternion_to_rotation_matrix :: "quat \<Rightarrow> (real \<times> real \<times> real) list" where
  "quaternion_to_rotation_matrix q =
     (case q of (w, x, y, z) \<Rightarrow>
        [(1 - 2 * (y * y + z * z), 2 * (x * y - w * z), 2 * (x * z + w * y)),
         (2 * (x * y + w * z), 1 - 2 * (x * x + z * z), 2 * (y * z - w * x)),
         (2 * (x * z - w * y), 2 * (y * z + w * x), 1 - 2 * (x * x + y * y))])"

definition matvec :: "(real \<times> real \<times> real) list \<Rightarrow> real \<times> real \<times> real \<Rightarrow> real list" where
  "matvec R v = (case v of (v0, v1, v2) \<Rightarrow> map (\<lambda>(a, b, d). a * v0 + b * v1 + d * v2) R)"

definition rotation_matrix_method ::
  "converter \<Rightarrow> quat \<Rightarrow> bool \<Rightarrow> py_error + ((real \<times> real) \<times> converter)" where
  "rotation_matrix_method c q use_smoothing =
     (let R = quaternion_to_rotation_matrix q;
          rotated_vector = matvec R (0, 0, 1);
          x0 = screen_center_x c + (rotated_vector ! 0 * sensitivity_x c);
          y0 = screen_center_y c - (rotated_vector ! 1 * sensitivity_y c)
      in apply_post_processing c x0 y0 use_smoothing)"

text \<open>The point \<open>spherical_method\<close> hands to \<open>apply_post_processing\<close>.\<close>

definition spherical_raw :: "converter \<Rightarrow> quat \<Rightarrow> py_error + (real \<times> real)" where
  "spherical_raw c q =
     (case q of (w, x, y, z) \<Rightarrow>
        let azimuth = math_atan2 (2 * (w * z + x * y)) (1 - 2 * (y * y + z * z));
            sin_elevation = 2 * (w * y - z * x)
        in and_then (pitch_of_sinp sin_elevation) (\<lambda>elevation.
             let azimuth_clamped = max (- max_tilt_radians c) (min (max_tilt_radians c) azimuth);
                 elevation_clamped = max (- max_tilt_radians c) (min (max_tilt_radians c) elevation);
                 x0 = screen_center_x c + (azimuth_clamped * sensitivity_x c);
                 y0 = screen_center_y c - (elevation_clamped * sensitivity_y c)
             in Inr (x0, y0)))"

definition spherical_method ::
  "converter \<Rightarrow> quat \<Rightarrow> bool \<Rightarrow> py_error + ((real \<times> real) \<times> converter)" where
  "spherical_method c q use_smoothing =
     and_then (spherical_raw c q) (\<lambda>(x0, y0). apply_post_processing c x0 y0 use_smoothing)"

text \<open>
  \<open>hybrid_method\<close> calls \<open>euler_method\<close> and \<open>spherical_method\<close> on the same object, one
  after the other, with \<open>use_smoothing = False\<close>, and blends what they return.
\<close>

definition hybrid_method ::
  "converter \<Rightarrow> quat \<Rightarrow> bool \<Rightarrow> py_error + ((real \<times> real) \<times> converter)" where
  "hybrid_method c q use_smoothing =
     and_then (euler_method c q False) (\<lambda>((euler_x, euler_y), c1).
     and_then (spherical_method c1 q False) (\<lambda>((sphere_x, sphere_y), c2).
       let weight_euler = 0.8;
           weight_sphere = 0.2;
           x0 = euler_x * weight_euler + sphere_x * weight_sphere;
           y0 = euler_y * weight_euler + sphere_y * weight_sphere
       in apply_post_processing c2 x0 y0 use_smoothing))"

text \<open>
  Lines 51--68 of \<open>QuaternionToScreen.quaternion_to_screen_coords\<close> (Euler.py): the dead
  zone, the smoothing and the clamp, written out in that method's own body.
\<close>

definition screen_coords_post ::
  "converter \<Rightarrow> real \<Rightarrow> real \<Rightarrow> bool \<Rightarrow> py_error + ((real \<times> real) \<times> converter)" where
  "screen_coords_post c x0 y0 use_smoothing =
     (let dx = x0 - screen_center_x c;
          dy = y0 - screen_center_y c
      in and_then (math_sqrt (dx * dx + dy * dy)) (\<lambda>distance_from_center.
           let (x1, y1) = (if distance_from_center < dead_zone c
                           then (screen_center_x c, screen_center_y c) else (x0, y0));
               ((x2, y2), c1) =
                 (if use_smoothing
                  then (let xs = alpha c * x1 + (1 - alpha c) * prev_x c;
                            ys = alpha c * y1 + (1 - alpha c) * prev_y c
                        in ((xs, ys), c\<lparr> prev_x := xs, prev_y := ys \<rparr>))
                  else ((x1, y1), c))
           in Inr ((max 0 (min (width c) x2), max 0 (min (height c) y2)), c1)))"

text \<open>
  \<open>QuaternionToScreen.quaternion_to_screen_coords\<close> of Euler.py: lines 43--49 map roll
  and pitch to a screen point, lines 51--68 post-process it.
\<close>

definition quaternion_to_screen_coords ::
  "converter \<Rightarrow> quat \<Rightarrow> bool \<Rightarrow> py_error + ((real \<times> real) \<times> converter)" where
  "quaternion_to_screen_coords c q use_smoothing =
     and_then (quaternion_to_euler q) (\<lambda>(roll, pitch, yaw).
       let roll_clamped = max (- max_tilt_radians c) (min (max_tilt_radians c) roll);
           x0 = screen_center_x c + (roll_clamped * sensitivity_x c);
           pitch_clamped = max (- max_tilt_radians c) (min (max_tilt_radians c) pitch);
           y0 = screen_center_y c - (pitch_clamped * sensitivity_y c)
       in screen_coords_post c x0 y0 use_smoothing)"

text \<open>
  A tracker at rest: every buffered delta is zero and the stored position is a fixed
  point of the clamp of \<open>update_position\<close> (used to state when a zero delta leaves the
  position where it is).
\<close>

definition at_rest :: "motion \<Rightarrow> bool" where
  "at_rest s \<longleftrightarrow>
     set (delta_buffer s) \<subseteq> {(0, 0)}
     \<and> max 0 (min (real_of_int (screen_width s - 1)) (screen_x s)) = screen_x s
     \<and> max 0 (min (real_of_int (screen_height s - 1)) (screen_y s)) = screen_y s"

text \<open>
  The stored position of a tracker lies on a screen of at least one pixel each way,
  between pixel \<open>0\<close> and pixel \<open>screen_width - 1\<close> (\<open>screen_height - 1\<close>).
\<close>

definition on_screen :: "motion \<Rightarrow> bool" where
  "on_screen s \<longleftrightarrow>
     1 \<le> screen_width s \<and> 1 \<le> screen_height s
     \<and> 0 \<le> screen_x s \<and> screen_x s \<le> real_of_int (screen_width s - 1)
     \<and> 0 \<le> screen_y s \<and> screen_y s \<le> real_of_int (screen_height s - 1)"

section \<open>Basic facts\<close>

lemma and_then_simps [simp]:
  "and_then (Inr v) f = f v" "and_then (Inl e) f = Inl e"
  by (simp_all add: and_then_def)

lemma norm_nonneg: "0 \<le> np_linalg_norm q"
  by (cases q) (simp add: np_linalg_norm_def)

lemma norm_zero_iff: "np_linalg_norm q = 0 \<longleftrightarrow> q = (0, 0, 0, 0)"
proof (cases q)
  case (fields w x y z)
  have "w * w + x * x + y * y + z * z = 0 \<longleftrightarrow> w = 0 \<and> x = 0 \<and> y = 0 \<and> z = 0"
    by (smt (verit) mult_eq_0_iff zero_le_square sum_squares_eq_zero_iff)
  then show ?thesis using fields
    by (simp add: np_linalg_norm_def)
qed

section \<open>Quaternion algebra: the claims\<close>

text \<open>
  C4. \<open>_normalize_quaternion\<close> never fails and never divides by zero: on the zero
  quaternion \<open>(0, 0, 0, 0)\<close> it returns exactly the identity \<open>(1, 0, 0, 0)\<close>; on every input
  it returns a quaternion (no error value, in particular no division by zero); on every
  quaternion of nonzero Euclidean norm it returns each component divided by that norm;
  and the norm is zero for the zero quaternion only.
\<close>

theorem normalize_never_fails:
  "normalize_quaternion (0, 0, 0, 0) = Inr (1, 0, 0, 0)
   \<and> (\<exists>r. normalize_quaternion (w, x, y, z) = Inr r)
   \<and> (np_linalg_norm (w, x, y, z) \<noteq> 0 \<longrightarrow>
        normalize_quaternion (w, x, y, z) =
          Inr (w / np_linalg_norm (w, x, y, z), x / np_linalg_norm (w, x, y, z),
               y / np_linalg_norm (w, x, y, z), z / np_linalg_norm (w, x, y, z)))
   \<and> (np_linalg_norm (w, x, y, z) = 0 \<longleftrightarrow> (w, x, y, z) = (0, 0, 0, 0))"
proof -
  have z: "normalize_quaternion (0, 0, 0, 0) = Inr (1, 0, 0, 0)"
    by (simp add: normalize_quaternion_def np_linalg_norm_def)
  have t: "\<exists>r. normalize_quaternion (w, x, y, z) = Inr r"
    by (simp add: normalize_quaternion_def np_divide_def Let_def)
  have d: "np_linalg_norm (w, x, y, z) \<noteq> 0 \<longrightarrow>
        normalize_quaternion (w, x, y, z) =
          Inr (w / np_linalg_norm (w, x, y, z), x / np_linalg_norm (w, x, y, z),
               y / np_linalg_norm (w, x, y, z), z / np_linalg_norm (w, x, y, z))"
    by (simp add: normalize_quaternion_def np_divide_def Let_def)
  show ?thesis using z t d norm_zero_iff [of "(w, x, y, z)"] by blast
qed

lemma norm_3_4: "np_linalg_norm (3, 0, 4, 0) = 5"
proof -
  have "sqrt (5\<^sup>2) = (5::real)" by simp
  then show ?thesis by (simp add: np_linalg_norm_def)
qed

theorem normalize_never_fails_witness:
  "np_linalg_norm (3, 0, 4, 0) \<noteq> 0
   \<and> normalize_quaternion (3, 0, 4, 0) = Inr (3 / 5, 0, 4 / 5, 0)"
  using normalize_never_fails [of 3 0 4 0] by (simp add: norm_3_4)

text \<open>
  C9. For every quaternion \<open>q\<close> of Euclidean norm one, the Hamilton product of \<open>q\<close> with
  its conjugate is exactly the identity quaternion \<open>(1, 0, 0, 0)\<close> (in exact arithmetic).
\<close>

theorem multiply_conjugate_unit:
  assumes "np_linalg_norm q = 1"
  shows "quaternion_multiply q (quaternion_conjugate q) = (1, 0, 0, 0)"
proof (cases q)
  case (fields w x y z)
  from assms fields have "sqrt (w * w + x * x + y * y + z * z) = 1"
    by (simp add: np_linalg_norm_def)
  then have "w * w + x * x + y * y + z * z = 1"
    by simp
  then show ?thesis using fields
    by (simp add: quaternion_multiply_def quaternion_conjugate_def algebra_simps)
qed

lemma norm_unit_example: "np_linalg_norm (3 / 5, 0, 4 / 5, 0) = 1"
  by (simp add: np_linalg_norm_def)

theorem multiply_conjugate_unit_witness:
  "np_linalg_norm (3 / 5, 0, 4 / 5, 0) = 1
   \<and> quaternion_multiply (3 / 5, 0, 4 / 5, 0) (quaternion_conjugate (3 / 5, 0, 4 / 5, 0))
       = (1, 0, 0, 0)"
  using multiply_conjugate_unit [OF norm_unit_example] norm_unit_example by simp

lemma normalize_quaternion_Inr: "\<exists>cq. normalize_quaternion q = Inr cq"
  by (cases q) (simp add: normalize_quaternion_def np_divide_def Let_def)

lemma pitch_of_sinp_eq:
  "pitch_of_sinp v = Inr (if 1 \<le> v then pi / 2 else if v \<le> - 1 then - (pi / 2) else arcsin v)"
  by (auto simp: pitch_of_sinp_def math_copysign_def math_asin_def)

lemma quaternion_to_euler_eq:
  "quaternion_to_euler (w, x, y, z) =
     Inr (math_atan2 (2 * (w * x + y * z)) (1 - 2 * (x * x + y * y)),
          (if 1 \<le> 2 * (w * y - z * x) then pi / 2
           else if 2 * (w * y - z * x) \<le> - 1 then - (pi / 2)
           else arcsin (2 * (w * y - z * x))),
          math_atan2 (2 * (w * z + x * y)) (1 - 2 * (y * y + z * z)))"
  by (simp add: quaternion_to_euler_def pitch_of_sinp_eq Let_def)

lemma buffer_average_eq:
  "buffer_average buf =
     Inr (if buf = [] then (0, 0)
          else (sum_list (map fst buf) / real (length buf),
                sum_list (map snd buf) / real (length buf)))"
  by (cases buf) (simp_all add: buffer_average_def py_truediv_def)

text \<open>
  C8. For every quaternion the conversion to Euler angles returns a triple and never an
  error. With \<open>sinp = 2 (w y - z x)\<close>: the pitch is \<open>\<pi>/2\<close> when \<open>sinp \<ge> 1\<close> and \<open>-\<pi>/2\<close> when
  \<open>sinp \<le> -1\<close> (the sign of \<open>sinp\<close> is kept), and \<open>asin sinp\<close> otherwise; \<open>math.asin\<close> is
  reached only for \<open>\<bar>sinp\<bar> < 1\<close>, so no domain error can arise. The same branch computes
  the elevation of \<open>spherical_method\<close>, which therefore returns a point as well.
\<close>

theorem pitch_singularity_clamped:
  "quaternion_to_euler (w, x, y, z) =
     Inr (math_atan2 (2 * (w * x + y * z)) (1 - 2 * (x * x + y * y)),
          (if 1 \<le> 2 * (w * y - z * x) then pi / 2
           else if 2 * (w * y - z * x) \<le> - 1 then - (pi / 2)
           else arcsin (2 * (w * y - z * x))),
          math_atan2 (2 * (w * z + x * y)) (1 - 2 * (y * y + z * z)))
   \<and> pitch_of_sinp v =
        (if \<bar>v\<bar> < 1 then math_asin v else Inr (if 0 < v then pi / 2 else - (pi / 2)))
   \<and> (\<exists>p. pitch_of_sinp v = Inr p \<and> - (pi / 2) \<le> p \<and> p \<le> pi / 2)
   \<and> (\<exists>p. spherical_raw c (w, x, y, z) = Inr p)"
proof -
  have a: "pitch_of_sinp v =
        (if \<bar>v\<bar> < 1 then math_asin v else Inr (if 0 < v then pi / 2 else - (pi / 2)))"
    by (auto simp: pitch_of_sinp_def math_copysign_def)
  have b: "\<exists>p. pitch_of_sinp v = Inr p \<and> - (pi / 2) \<le> p \<and> p \<le> pi / 2"
    using arcsin_bounded [of v] by (auto simp: pitch_of_sinp_eq)
  have c: "\<exists>p. spherical_raw c (w, x, y, z) = Inr p"
    by (simp add: spherical_raw_def pitch_of_sinp_eq Let_def)
  show ?thesis using a b c quaternion_to_euler_eq by blast
qed

section \<open>The delta tracker: the claims\<close>

text \<open>
  C3. In every state of the tracker \<open>reset_position\<close> yields the state with the position
  at the screen centre \<open>(screen_width // 2, screen_height // 2)\<close>, no previous orientation
  and an empty delta buffer, every other attribute untouched; resetting twice is
  resetting once; and the next sample after a reset returns the centre and only records
  the normalised sample as the reference orientation, as a very first sample does.
\<close>

theorem reset_restores_initial_state:
  fixes s :: motion
  shows "reset_position s =
       \<lparr> screen_width = screen_width s, screen_height = screen_height s,
         sensitivity = sensitivity s, prev_quaternion = None,
         smoothing_window = smoothing_window s, delta_buffer = [],
         screen_x = real_of_int (screen_width s div 2),
         screen_y = real_of_int (screen_height s div 2),
         deadzone = deadzone s \<rparr>
     \<and> reset_position (reset_position s) = reset_position s
     \<and> (\<exists>cq. normalize_quaternion q = Inr cq
           \<and> update_position (reset_position s) q =
               Inr ((screen_width s div 2, screen_height s div 2),
                    (reset_position s)\<lparr> prev_quaternion := Some cq \<rparr>))"
proof -
  obtain cq where cq: "normalize_quaternion q = Inr cq"
    using normalize_quaternion_Inr by blast
  have "update_position (reset_position s) q =
               Inr ((screen_width s div 2, screen_height s div 2),
                    (reset_position s)\<lparr> prev_quaternion := Some cq \<rparr>)"
    by (simp add: update_position_def cq reset_position_def py_int_def)
  with cq show ?thesis by (simp add: reset_position_def)
qed

lemma update_position_first:
  assumes "prev_quaternion s = None" "normalize_quaternion q = Inr cq"
  shows "update_position s q =
           Inr ((py_int (screen_x s), py_int (screen_y s)), s\<lparr> prev_quaternion := Some cq \<rparr>)"
  using assms by (simp add: update_position_def)

lemma update_position_next:
  assumes "prev_quaternion s = Some p" "normalize_quaternion q = Inr cq"
    and "calculate_delta_quaternion cq p = Inr d" "quaternion_to_euler d = Inr (r, pitch, yaw)"
  shows "update_position s q = accumulate s cq (deadzone_delta s pitch yaw)"
  using assms by (simp add: update_position_def)

lemma calculate_delta_quaternion_Inr: "\<exists>d. calculate_delta_quaternion cq p = Inr d"
  using normalize_quaternion_Inr by (simp add: calculate_delta_quaternion_def Let_def)

lemma quaternion_to_euler_Inr: "\<exists>r pitch yaw. quaternion_to_euler d = Inr (r, pitch, yaw)"
  by (cases d) (simp add: quaternion_to_euler_eq)

lemma accumulate_eq:
  assumes "buffer_average (deque_append (smoothing_window s) (delta_buffer s) d) = Inr (ax, ay)"
  shows "accumulate s cq d =
     Inr ((py_int (max 0 (min (real_of_int (screen_width s - 1)) (screen_x s + ax))),
           py_int (max 0 (min (real_of_int (screen_height s - 1)) (screen_y s + ay)))),
          s\<lparr> delta_buffer := deque_append (smoothing_window s) (delta_buffer s) d,
             screen_x := max 0 (min (real_of_int (screen_width s - 1)) (screen_x s + ax)),
             screen_y := max 0 (min (real_of_int (screen_height s - 1)) (screen_y s + ay)),
             prev_quaternion := Some cq \<rparr>)"
  using assms by (simp add: accumulate_def Let_def)

lemma buffer_average_Inr: "\<exists>ax ay. buffer_average buf = Inr (ax, ay)"
  by (simp add: buffer_average_eq)

lemma accumulate_shape:
  "\<exists>s' ax ay. accumulate s cq d = Inr ((py_int (screen_x s'), py_int (screen_y s')), s')
     \<and> buffer_average (delta_buffer s') = Inr (ax, ay)
     \<and> delta_buffer s' = deque_append (smoothing_window s) (delta_buffer s) d
     \<and> screen_x s' = max 0 (min (real_of_int (screen_width s - 1)) (screen_x s + ax))
     \<and> screen_y s' = max 0 (min (real_of_int (screen_height s - 1)) (screen_y s + ay))"
proof -
  obtain ax ay where a: "buffer_average (deque_append (smoothing_window s) (delta_buffer s) d) = Inr (ax, ay)"
    using buffer_average_Inr by blast
  show ?thesis
    by (simp add: accumulate_eq [OF a] a)
qed

lemma accumulate_shape_full:
  "\<exists>s' ax ay. accumulate s cq d = Inr ((py_int (screen_x s'), py_int (screen_y s')), s')
     \<and> delta_buffer s' = deque_append (smoothing_window s) (delta_buffer s) d
     \<and> buffer_average (delta_buffer s') = Inr (ax, ay)
     \<and> screen_x s' = max 0 (min (real_of_int (screen_width s - 1)) (screen_x s + ax))
     \<and> screen_y s' = max 0 (min (real_of_int (screen_height s - 1)) (screen_y s + ay))
     \<and> screen_width s' = screen_width s \<and> screen_height s' = screen_height s"
proof -
  obtain ax ay where a: "buffer_average (deque_append (smoothing_window s) (delta_buffer s) d) = Inr (ax, ay)"
    using buffer_average_Inr by blast
  show ?thesis
    by (simp add: accumulate_eq [OF a] a)
qed

lemma py_int_truncates:
  "\<bar>real_of_int (py_int v)\<bar> \<le> \<bar>v\<bar> \<and> \<bar>v - real_of_int (py_int v)\<bar> < 1
   \<and> py_int (real_of_int n) = n"
proof (cases "0 \<le> v")
  case True
  then show ?thesis by (simp add: py_int_def) linarith
next
  case False
  then have "v < 0" by simp
  then have "real_of_int \<lceil>v\<rceil> \<le> 0" "v \<le> real_of_int \<lceil>v\<rceil>" "real_of_int \<lceil>v\<rceil> < v + 1"
    by (simp_all add: ceiling_le_iff) linarith+
  then show ?thesis using False by (simp add: py_int_def)
qed

text \<open>
  C10. \<open>update_position\<close> never fails; the pair it returns is the truncation toward
  zero (\<open>int()\<close>) of the position it leaves in the state, and that stored position is the
  un-truncated real number: unchanged on a first sample, and otherwise the clamp of the
  old stored position plus the buffer average, so the fraction is carried to the next call.
  The truncation \<open>py_int\<close> never increases the magnitude, is off by less than one, and
  leaves an integer (such as the initial centre) as it is.
\<close>

theorem update_returns_truncated_position:
  "\<exists>s'. update_position s q = Inr ((py_int (screen_x s'), py_int (screen_y s')), s')
     \<and> (case prev_quaternion s of
           None \<Rightarrow> screen_x s' = screen_x s \<and> screen_y s' = screen_y s
         | Some p \<Rightarrow>
             \<exists>ax ay. buffer_average (delta_buffer s') = Inr (ax, ay)
               \<and> screen_x s' = max 0 (min (real_of_int (screen_width s - 1)) (screen_x s + ax))
               \<and> screen_y s' = max 0 (min (real_of_int (screen_height s - 1)) (screen_y s + ay)))
     \<and> \<bar>real_of_int (py_int v)\<bar> \<le> \<bar>v\<bar> \<and> \<bar>v - real_of_int (py_int v)\<bar> < 1
     \<and> py_int (real_of_int n) = n"
proof -
  obtain cq where cq: "normalize_quaternion q = Inr cq"
    using normalize_quaternion_Inr by blast
  note t = py_int_truncates [of v n]
  show ?thesis
  proof (cases "prev_quaternion s")
    case None
    then show ?thesis
      using t by (simp add: update_position_first [OF None cq])
  next
    case (Some p)
    obtain d where d: "calculate_delta_quaternion cq p = Inr d"
      using calculate_delta_quaternion_Inr by blast
    obtain r pitch yaw where e: "quaternion_to_euler d = Inr (r, pitch, yaw)"
      using quaternion_to_euler_Inr by blast
    from accumulate_shape [of s cq "deadzone_delta s pitch yaw"]
    show ?thesis
      unfolding update_position_next [OF Some cq d e] using Some t by auto
  qed
qed

section \<open>Repeated samples\<close>

lemma multiply_conjugate_self:
  "quaternion_multiply (w, x, y, z) (quaternion_conjugate (w, x, y, z)) =
     (w * w + x * x + y * y + z * z, 0, 0, 0)"
  by (simp add: quaternion_multiply_def quaternion_conjugate_def algebra_simps)

lemma delta_of_same_orientation: "calculate_delta_quaternion p p = Inr (1, 0, 0, 0)"
proof (cases p)
  case (fields w x y z)
  define n where "n = w * w + x * x + y * y + z * z"
  have n0: "0 \<le> n" by (simp add: n_def)
  have norm: "np_linalg_norm (n, 0, 0, 0) = n"
    using n0 by (simp add: np_linalg_norm_def)
  have "normalize_quaternion (n, 0, 0, 0) = Inr (1, 0, 0, 0)"
    by (simp add: normalize_quaternion_def norm np_divide_def)
  then show ?thesis
    using fields by (simp add: calculate_delta_quaternion_def multiply_conjugate_self n_def)
qed

lemma euler_of_identity: "quaternion_to_euler (1, 0, 0, 0) = Inr (0, 0, 0)"
  by (simp add: quaternion_to_euler_eq math_atan2_def)

lemma deadzone_delta_zero: "deadzone_delta s 0 0 = (0, 0)"
  by (simp add: deadzone_delta_def)

lemma update_position_same:
  assumes "prev_quaternion s = Some cq" "normalize_quaternion q = Inr cq"
  shows "update_position s q = accumulate s cq (0, 0)"
  using update_position_next [OF assms delta_of_same_orientation euler_of_identity]
  by (simp add: deadzone_delta_zero)

lemma sum_list_zeros:
  assumes "set buf \<subseteq> {(0, 0)}"
  shows "sum_list (map fst buf) = (0::real) \<and> sum_list (map snd buf) = (0::real)"
  using assms by (induction buf) auto

lemma buffer_average_zeros:
  assumes "set buf \<subseteq> {(0, 0)}"
  shows "buffer_average buf = Inr (0, 0)"
  using sum_list_zeros [OF assms] by (simp add: buffer_average_eq)

lemma deque_append_zeros:
  assumes "set buf \<subseteq> {(0::real, 0::real)}"
  shows "set (deque_append n buf (0, 0)) \<subseteq> {(0, 0)}"
proof -
  have "set (deque_append n buf (0, 0)) \<subseteq> set (buf @ [(0, 0)])"
    unfolding deque_append_def Let_def by (rule set_drop_subset)
  then show ?thesis using assms by auto
qed

lemma accumulate_zero_at_rest:
  assumes "at_rest s"
  shows "accumulate s cq (0, 0) =
           Inr ((py_int (screen_x s), py_int (screen_y s)),
                s\<lparr> delta_buffer := deque_append (smoothing_window s) (delta_buffer s) (0, 0),
                   prev_quaternion := Some cq \<rparr>)"
proof -
  from assms have z: "set (delta_buffer s) \<subseteq> {(0, 0)}"
    and x: "max 0 (min (real_of_int (screen_width s - 1)) (screen_x s)) = screen_x s"
    and y: "max 0 (min (real_of_int (screen_height s - 1)) (screen_y s)) = screen_y s"
    by (simp_all add: at_rest_def)
  have a: "buffer_average (deque_append (smoothing_window s) (delta_buffer s) (0, 0)) = Inr (0, 0)"
    by (rule buffer_average_zeros [OF deque_append_zeros [OF z]])
  show ?thesis
    using x y by (simp add: accumulate_eq [OF a])
qed

lemma at_rest_step:
  assumes "at_rest s"
  shows "at_rest (s\<lparr> delta_buffer := deque_append (smoothing_window s) (delta_buffer s) (0, 0),
                     prev_quaternion := Some cq \<rparr>)"
  using assms deque_append_zeros [of "delta_buffer s" "smoothing_window s"]
  by (simp add: at_rest_def)

lemma feed_same_at_rest:
  assumes "normalize_quaternion q = Inr cq"
  shows "at_rest s \<Longrightarrow> prev_quaternion s = Some cq \<Longrightarrow>
         \<exists>s'. feed s (replicate n q) = Inr (replicate n (py_int (screen_x s), py_int (screen_y s)), s')
            \<and> screen_x s' = screen_x s \<and> screen_y s' = screen_y s \<and> at_rest s'"
proof (induction n arbitrary: s)
  case 0
  then show ?case by simp
next
  case (Suc n)
  let ?s1 = "s\<lparr> delta_buffer := deque_append (smoothing_window s) (delta_buffer s) (0, 0),
                 prev_quaternion := Some cq \<rparr>"
  have step: "update_position s q = Inr ((py_int (screen_x s), py_int (screen_y s)), ?s1)"
    using update_position_same [OF Suc.prems(2) assms] accumulate_zero_at_rest [OF Suc.prems(1)]
    by simp
  have "at_rest ?s1" by (rule at_rest_step [OF Suc.prems(1)])
  moreover have "prev_quaternion ?s1 = Some cq" by simp
  ultimately obtain s' where
    "feed ?s1 (replicate n q) = Inr (replicate n (py_int (screen_x ?s1), py_int (screen_y ?s1)), s')"
    "screen_x s' = screen_x ?s1" "screen_y s' = screen_y ?s1" "at_rest s'"
    using Suc.IH by blast
  then show ?case using step by simp
qed

lemma feed_same_from_first:
  assumes "prev_quaternion s = None" "at_rest s"
  shows "\<exists>s'. feed s (replicate n q) = Inr (replicate n (py_int (screen_x s), py_int (screen_y s)), s')
            \<and> screen_x s' = screen_x s \<and> screen_y s' = screen_y s"
proof (cases n)
  case 0
  then show ?thesis by simp
next
  case (Suc m)
  obtain cq where cq: "normalize_quaternion q = Inr cq"
    using normalize_quaternion_Inr by blast
  let ?s1 = "s\<lparr> prev_quaternion := Some cq \<rparr>"
  have first: "update_position s q = Inr ((py_int (screen_x s), py_int (screen_y s)), ?s1)"
    by (rule update_position_first [OF assms(1) cq])
  have "at_rest ?s1" using assms(2) by (simp add: at_rest_def)
  moreover have "prev_quaternion ?s1 = Some cq" by simp
  ultimately obtain s' where
    "feed ?s1 (replicate m q) = Inr (replicate m (py_int (screen_x ?s1), py_int (screen_y ?s1)), s')"
    "screen_x s' = screen_x ?s1" "screen_y s' = screen_y ?s1"
    using feed_same_at_rest [OF cq, of ?s1 m] by blast
  then show ?thesis using first Suc by simp
qed

lemma centre_clamp_fixed:
  assumes "0 \<le> (W::int)"
  shows "max 0 (min (real_of_int (W - 1)) (real_of_int (W div 2))) = real_of_int (W div 2)"
proof (cases "W = 0")
  case True
  then show ?thesis by simp
next
  case False
  with assms have "W div 2 \<le> W - 1" "0 \<le> W div 2" by auto
  then have "real_of_int (W div 2) \<le> real_of_int (W - 1)" "0 \<le> real_of_int (W div 2)"
    by linarith+
  then show ?thesis by simp
qed

lemma py_int_of_int [simp]: "py_int (real_of_int n) = n"
  by (simp add: py_int_def)

lemma reset_at_rest:
  assumes "0 \<le> screen_width s" "0 \<le> screen_height s"
  shows "at_rest (reset_position s)"
  using centre_clamp_fixed [OF assms(1)] centre_clamp_fixed [OF assms(2)]
  by (simp add: at_rest_def reset_position_def)

lemma reset_of_init:
  assumes "motion_init W H sens win = Inr s0"
  shows "reset_position s0 = s0 \<and> screen_width s0 = W \<and> screen_height s0 = H"
  using assms by (auto simp: motion_init_def reset_position_def split: if_splits)

lemma feed_same_rest:
  assumes "at_rest s"
    and "prev_quaternion s = None \<or> (prev_quaternion s = Some cq \<and> normalize_quaternion q = Inr cq)"
  shows "\<exists>s'. feed s (replicate n q) = Inr (replicate n (py_int (screen_x s), py_int (screen_y s)), s')
            \<and> screen_x s' = screen_x s \<and> screen_y s' = screen_y s \<and> at_rest s'"
proof (cases "prev_quaternion s")
  case (Some p)
  with assms(2) have "prev_quaternion s = Some cq" "normalize_quaternion q = Inr cq"
    by auto
  then show ?thesis using feed_same_at_rest [OF _ assms(1)] by blast
next
  case None
  show ?thesis
  proof (cases n)
    case 0
    then show ?thesis using assms(1) by simp
  next
    case (Suc m)
    obtain c1 where c1: "normalize_quaternion q = Inr c1"
      using normalize_quaternion_Inr by blast
    let ?s1 = "s\<lparr> prev_quaternion := Some c1 \<rparr>"
    have first: "update_position s q = Inr ((py_int (screen_x s), py_int (screen_y s)), ?s1)"
      by (rule update_position_first [OF None c1])
    have "at_rest ?s1" using assms(1) by (simp add: at_rest_def)
    moreover have "prev_quaternion ?s1 = Some c1" by simp
    ultimately obtain s' where
      "feed ?s1 (replicate m q) = Inr (replicate m (py_int (screen_x ?s1), py_int (screen_y ?s1)), s')"
      "screen_x s' = screen_x ?s1" "screen_y s' = screen_y ?s1" "at_rest s'"
      using feed_same_at_rest [OF c1, of ?s1 m] by blast
    then show ?thesis using first Suc by simp
  qed
qed

lemma update_position_same_shape:
  assumes "prev_quaternion t = Some cq" "normalize_quaternion q = Inr cq"
  shows "\<exists>s' ax ay. update_position t q = Inr ((py_int (screen_x s'), py_int (screen_y s')), s')
       \<and> delta_buffer s' = deque_append (smoothing_window t) (delta_buffer t) (0, 0)
       \<and> buffer_average (delta_buffer s') = Inr (ax, ay)
       \<and> screen_x s' = max 0 (min (real_of_int (screen_width t - 1)) (screen_x t + ax))
       \<and> screen_y s' = max 0 (min (real_of_int (screen_height t - 1)) (screen_y t + ay))"
  unfolding update_position_same [OF assms]
  using accumulate_shape_full [of t cq "(0, 0)"] by blast

text \<open>
  C1, as amended. Let the tracker be at rest (every delta in the smoothing buffer is
  \<open>(0, 0)\<close> and the stored position is left unchanged by the clamp), with no previous
  orientation or with the normalised \<open>q\<close> as previous orientation. Then feeding \<open>q\<close> any
  number \<open>n\<close> of times returns the truncated stored position every time, keeps the stored
  position, and leaves the tracker at rest. A reset tracker and a freshly constructed
  one (screen dimensions not negative) are at rest, the constructed one with no previous
  orientation, and both return the screen centre \<open>n\<close> times and keep the centre as stored
  position. In every state, a sample whose normalised quaternion equals the stored
  previous orientation contributes the delta \<open>(0, 0)\<close>: \<open>update_position\<close> then is the
  accumulation step on a zero delta, which appends \<open>(0, 0)\<close> to the buffer and moves the
  stored position to the old one plus the average of the buffer after the append,
  clamped per axis to \<open>[0, screen_width - 1]\<close> and \<open>[0, screen_height - 1]\<close>; the returned
  pair is the truncation of that stored position.
\<close>

theorem repeated_sample_keeps_position:
  "(at_rest s
      \<and> (prev_quaternion s = None
           \<or> (prev_quaternion s = Some cq \<and> normalize_quaternion q = Inr cq)) \<longrightarrow>
      (\<exists>s'. feed s (replicate n q) =
               Inr (replicate n (py_int (screen_x s), py_int (screen_y s)), s')
           \<and> screen_x s' = screen_x s \<and> screen_y s' = screen_y s \<and> at_rest s'))
   \<and> (0 \<le> screen_width u \<and> 0 \<le> screen_height u \<longrightarrow>
        at_rest (reset_position u)
      \<and> (\<exists>s'. feed (reset_position u) (replicate n q) =
               Inr (replicate n (screen_width u div 2, screen_height u div 2), s')
           \<and> screen_x s' = real_of_int (screen_width u div 2)
           \<and> screen_y s' = real_of_int (screen_height u div 2)))
   \<and> (motion_init W H sens win = Inr s0 \<and> 0 \<le> W \<and> 0 \<le> H \<longrightarrow>
        at_rest s0 \<and> prev_quaternion s0 = None
      \<and> (\<exists>s'. feed s0 (replicate n q) = Inr (replicate n (W div 2, H div 2), s')
           \<and> screen_x s' = real_of_int (W div 2)
           \<and> screen_y s' = real_of_int (H div 2)))
   \<and> (prev_quaternion t = Some cq' \<and> normalize_quaternion q = Inr cq' \<longrightarrow>
        update_position t q = accumulate t cq' (0, 0)
      \<and> (\<exists>s' ax ay. update_position t q = Inr ((py_int (screen_x s'), py_int (screen_y s')), s')
           \<and> delta_buffer s' = deque_append (smoothing_window t) (delta_buffer t) (0, 0)
           \<and> buffer_average (delta_buffer s') = Inr (ax, ay)
           \<and> screen_x s' = max 0 (min (real_of_int (screen_width t - 1)) (screen_x t + ax))
           \<and> screen_y s' = max 0 (min (real_of_int (screen_height t - 1)) (screen_y t + ay))))"
proof -
  have g: "\<exists>s'. feed s (replicate n q) =
               Inr (replicate n (py_int (screen_x s), py_int (screen_y s)), s')
           \<and> screen_x s' = screen_x s \<and> screen_y s' = screen_y s \<and> at_rest s'"
    if "at_rest s" "prev_quaternion s = None
           \<or> (prev_quaternion s = Some cq \<and> normalize_quaternion q = Inr cq)"
    by (rule feed_same_rest [OF that])
  have r: "at_rest (reset_position v)
      \<and> (\<exists>s'. feed (reset_position v) (replicate n q) =
               Inr (replicate n (screen_width v div 2, screen_height v div 2), s')
           \<and> screen_x s' = real_of_int (screen_width v div 2)
           \<and> screen_y s' = real_of_int (screen_height v div 2))"
    if "0 \<le> screen_width v" "0 \<le> screen_height v" for v
    using feed_same_from_first [OF _ reset_at_rest [OF that], of n q] reset_at_rest [OF that]
    by (simp add: reset_position_def)
  have i: "at_rest s0 \<and> prev_quaternion s0 = None
      \<and> (\<exists>s'. feed s0 (replicate n q) = Inr (replicate n (W div 2, H div 2), s')
           \<and> screen_x s' = real_of_int (W div 2)
           \<and> screen_y s' = real_of_int (H div 2))"
    if "motion_init W H sens win = Inr s0" "0 \<le> W" "0 \<le> H"
  proof -
    have "prev_quaternion s0 = None"
      using that(1) by (auto simp: motion_init_def split: if_splits)
    then show ?thesis
      using r [of s0] reset_of_init [OF that(1)] that(2,3) by simp
  qed
  have z: "update_position t q = accumulate t cq' (0, 0)
      \<and> (\<exists>s' ax ay. update_position t q = Inr ((py_int (screen_x s'), py_int (screen_y s')), s')
           \<and> delta_buffer s' = deque_append (smoothing_window t) (delta_buffer t) (0, 0)
           \<and> buffer_average (delta_buffer s') = Inr (ax, ay)
           \<and> screen_x s' = max 0 (min (real_of_int (screen_width t - 1)) (screen_x t + ax))
           \<and> screen_y s' = max 0 (min (real_of_int (screen_height t - 1)) (screen_y t + ay)))"
    if "prev_quaternion t = Some cq'" "normalize_quaternion q = Inr cq'"
    using update_position_same [OF that] update_position_same_shape [OF that] by blast
  show ?thesis
    using g r [of u] i z by (intro conjI impI) blast+
qed

section \<open>Bounds on \<open>\<pi>\<close> and the arc tangent\<close>

lemma sin_poly_bounds:
  fixes a :: real
  assumes "0 \<le> a"
  shows "a - a^3 / 6 + a^5 / 120 - a^7 / 5040 \<le> sin a"
    and "sin a \<le> a - a^3 / 6 + a^5 / 120 + a^7 / 5040"
proof -
  have c: "sin_coeff 0 = 0" "sin_coeff (Suc 0) = 1" "sin_coeff 2 = 0" "sin_coeff 3 = - 1 / 6"
    "sin_coeff 4 = 0" "sin_coeff 5 = 1 / 120" "sin_coeff 6 = 0"
    by (simp_all add: sin_coeff_def fact_numeral)
  have "{..<7::nat} = {0, 1, 2, 3, 4, 5, 6}" by auto
  then have s: "(\<Sum>m<7. sin_coeff m * a ^ m) = a - a^3 / 6 + a^5 / 120"
    by (simp add: c)
  have f: "inverse (fact 7) * \<bar>a\<bar> ^ 7 = a^7 / 5040"
    using assms by (simp add: eval_nat_numeral field_simps)
  from Maclaurin_sin_bound [of a 7]
  have "\<bar>sin a - (a - a^3 / 6 + a^5 / 120)\<bar> \<le> a^7 / 5040"
    unfolding s f .
  then show "a - a^3 / 6 + a^5 / 120 - a^7 / 5040 \<le> sin a"
    and "sin a \<le> a - a^3 / 6 + a^5 / 120 + a^7 / 5040"
    by linarith+
qed

lemma pi_sixth_bounds: "5235 / 10000 < pi / 6" "pi / 6 < 5237 / 10000"
proof -
  have r1: "- (pi / 2) \<le> 5235 / 10000" "(5235 / 10000 :: real) \<le> pi / 2"
    using pi_ge_two by simp_all
  have r2: "- (pi / 2) \<le> 5237 / 10000" "(5237 / 10000 :: real) \<le> pi / 2"
    using pi_ge_two by simp_all
  have r3: "- (pi / 2) \<le> pi / 6" "pi / 6 \<le> pi / 2"
    by simp_all
  have "sin (5235 / 10000 :: real) \<le> (5235 / 10000) - (5235 / 10000)^3 / 6 + (5235 / 10000)^5 / 120 + (5235 / 10000)^7 / 5040"
    by (rule sin_poly_bounds(2)) simp
  also have "\<dots> < (1 / 2 :: real)" by (simp add: power_divide)
  finally have "sin (5235 / 10000) < sin (pi / 6)" by (simp add: sin_30)
  then show "5235 / 10000 < pi / 6"
    using sin_mono_less_eq [OF r1 r3] by simp
  have "(1 / 2 :: real) < (5237 / 10000) - (5237 / 10000)^3 / 6 + (5237 / 10000)^5 / 120 - (5237 / 10000)^7 / 5040"
    by (simp add: power_divide)
  also have "\<dots> \<le> sin (5237 / 10000)"
    by (rule sin_poly_bounds(1)) simp
  finally have "sin (pi / 6) < sin (5237 / 10000)" by (simp add: sin_30)
  then show "pi / 6 < 5237 / 10000"
    using sin_mono_less_eq [OF r3 r2] by simp
qed

lemma pi_bounds: "3141 / 1000 < pi" "pi < 31422 / 10000"
  using pi_sixth_bounds by simp_all

lemma arctan_bounds_pos:
  assumes "0 < u"
  shows "u / (1 + u\<^sup>2) < arctan u" "arctan u < u"
proof -
  have "\<exists>z. 0 < z \<and> z < u \<and> arctan u - arctan 0 = (u - 0) * inverse (1 + z\<^sup>2)"
    by (rule MVT2 [OF assms]) (simp add: DERIV_arctan)
  then obtain z where z: "0 < z" "z < u" "arctan u = u * inverse (1 + z\<^sup>2)"
    by auto
  have "1 < 1 + z\<^sup>2" using z(1) by simp
  then have "inverse (1 + z\<^sup>2) < 1"
    by (simp only: inverse_less_1_iff) simp
  then show "arctan u < u" using z(3) assms by simp
  have "z\<^sup>2 < u\<^sup>2" using z(1,2) by (simp add: power_strict_mono)
  then have "inverse (1 + u\<^sup>2) < inverse (1 + z\<^sup>2)"
    by (smt (verit) inverse_less_iff_less zero_le_power2)
  then have "u * inverse (1 + u\<^sup>2) < u * inverse (1 + z\<^sup>2)"
    using assms by simp
  then show "u / (1 + u\<^sup>2) < arctan u" using z(3) by (simp add: field_simps)
qed

lemma inv_sqrt3_bounds: "57735 / 100000 < 1 / sqrt 3" "1 / sqrt 3 < 57735027 / 100000000"
proof -
  have "sqrt 3 < 100000 / 57735"
    by (rule real_less_lsqrt) (simp_all add: power2_eq_square)
  then show "57735 / 100000 < 1 / sqrt 3"
    by (simp add: field_simps)
  have "100000000 / 57735027 < sqrt 3"
    by (rule real_less_rsqrt) (simp add: power2_eq_square)
  then show "1 / sqrt 3 < 57735027 / 100000000"
    by (simp add: field_simps)
qed

lemma arctan_inv_sqrt3: "arctan (1 / sqrt 3) = pi / 6"
proof -
  have "arctan (tan (pi / 6)) = pi / 6"
    by (rule arctan_tan) simp_all
  then show ?thesis by (simp add: tan_30)
qed

lemma roll30_split:
  "\<exists>d. arctan (250194 / 432919) = pi / 6 + d \<and> 429 / 1000000 < d \<and> d < 43 / 100000"
proof -
  define t :: real where "t = 1 / sqrt 3"
  define r :: real where "r = 250194 / 432919"
  define u where "u = (r - t) / (1 + r * t)"
  have t1: "57735 / 100000 < t" and t2: "t < 57735027 / 100000000"
    using inv_sqrt3_bounds by (simp_all add: t_def)
  have den: "0 < 1 + r * t" using t1 by (simp add: r_def)
  have "4295 / 10000000 * (1 + r * t) < r - t"
    using t2 by (simp add: r_def)
  then have ulo: "4295 / 10000000 < u"
    using den by (simp add: u_def pos_less_divide_eq)
  have "r - t < 43 / 100000 * (1 + r * t)"
    using t1 by (simp add: r_def)
  then have uhi: "u < 43 / 100000"
    using den by (simp add: u_def pos_divide_less_eq)
  have "arctan r + arctan (- t) = arctan ((r + - t) / (1 - r * - t))"
    by (rule arctan_add) (use t1 t2 in \<open>simp_all add: r_def\<close>)
  then have split: "arctan r = pi / 6 + arctan u"
    using arctan_inv_sqrt3 by (simp add: arctan_minus u_def t_def)
  have "(4295 / 10000000 :: real) / (1 + (4295 / 10000000)\<^sup>2) < arctan (4295 / 10000000)"
    by (rule arctan_bounds_pos(1)) simp
  moreover have "arctan (4295 / 10000000) < arctan u"
    using ulo by (simp only: arctan_less_iff)
  moreover have "(429 / 1000000 :: real) < (4295 / 10000000) / (1 + (4295 / 10000000)\<^sup>2)"
    by (simp add: power2_eq_square)
  ultimately have lo: "429 / 1000000 < arctan u" by linarith
  have "0 < u" using ulo by linarith
  then have "arctan u < u" by (rule arctan_bounds_pos(2))
  then have hi: "arctan u < 43 / 100000" using uhi by linarith
  show ?thesis using split lo hi by (auto simp: r_def)
qed

lemma euler_of_roll30:
  "quaternion_to_euler (966 / 1000, 259 / 1000, 0, 0) = Inr (arctan (250194 / 432919), 0, 0)"
proof -
  have "(2 * (966 * 259) / (1000 * 1000)) / (1 - 2 * (259 * 259) / (1000 * 1000)) = (250194 / 432919 :: real)"
    by simp
  then show ?thesis
    by (simp add: quaternion_to_euler_eq math_atan2_def)
qed

section \<open>Post-processing: basic facts\<close>

lemma math_sqrt_sum_squares [simp]:
  "math_sqrt (dx * dx + dy * dy) = Inr (sqrt (dx * dx + dy * dy))"
  by (simp add: math_sqrt_def not_less)

lemma post_unclamped_eq:
  "post_unclamped c x0 y0 use_smoothing =
     (let (x1, y1) =
            (if sqrt ((x0 - screen_center_x c) * (x0 - screen_center_x c)
                      + (y0 - screen_center_y c) * (y0 - screen_center_y c)) < dead_zone c
             then (screen_center_x c, screen_center_y c) else (x0, y0))
      in if use_smoothing
         then Inr ((alpha c * x1 + (1 - alpha c) * prev_x c, alpha c * y1 + (1 - alpha c) * prev_y c),
                   c\<lparr> prev_x := alpha c * x1 + (1 - alpha c) * prev_x c,
                      prev_y := alpha c * y1 + (1 - alpha c) * prev_y c \<rparr>)
         else Inr ((x1, y1), c))"
  by (simp add: post_unclamped_def Let_def split: prod.splits)

lemma screen_coords_post_eq:
  "screen_coords_post c x0 y0 use_smoothing = apply_post_processing c x0 y0 use_smoothing"
  by (cases use_smoothing)
     (simp_all add: screen_coords_post_def apply_post_processing_def post_unclamped_def
        clamp_to_screen_def Let_def)

lemma screen_coords_is_euler_method:
  "quaternion_to_screen_coords c q use_smoothing = euler_method c q use_smoothing"
proof -
  obtain roll pitch yaw where e: "quaternion_to_euler q = Inr (roll, pitch, yaw)"
    using quaternion_to_euler_Inr by blast
  show ?thesis
    unfolding quaternion_to_screen_coords_def euler_method_def euler_raw_def e screen_coords_post_eq
    by (simp add: Let_def)
qed

lemma QuaternionToScreen_init_default:
  "QuaternionToScreen_init 800 600 45 =
     Inr \<lparr> width = 800, height = 600, screen_center_x = 400, screen_center_y = 300,
           max_tilt_radians = pi / 4, sensitivity_x = 1600 / pi, sensitivity_y = 1200 / pi,
           alpha = 0.2, prev_x = 400, prev_y = 300, dead_zone = 1 \<rparr>"
  by (simp add: QuaternionToScreen_init_def converter_init_def math_radians_def py_truediv_def)

lemma apply_post_processing_plain:
  assumes "dead_zone c \<le> sqrt ((x0 - screen_center_x c) * (x0 - screen_center_x c)
                      + (y0 - screen_center_y c) * (y0 - screen_center_y c))"
  shows "apply_post_processing c x0 y0 False = Inr (clamp_to_screen c (x0, y0), c)"
  using assms by (simp add: apply_post_processing_def post_unclamped_eq)

lemma apply_post_processing_snap:
  assumes "sqrt ((x0 - screen_center_x c) * (x0 - screen_center_x c)
                      + (y0 - screen_center_y c) * (y0 - screen_center_y c)) < dead_zone c"
  shows "apply_post_processing c x0 y0 use_smoothing =
           apply_post_processing c (screen_center_x c) (screen_center_y c) use_smoothing"
    and "apply_post_processing c x0 y0 False =
           Inr (clamp_to_screen c (screen_center_x c, screen_center_y c), c)"
  using assms by (simp_all add: apply_post_processing_def post_unclamped_eq)

section \<open>The Euler scenarios\<close>

text \<open>
  C5. For the converter \<open>QuaternionToScreen(800, 600, 45)\<close> of Euler.py and the sample
  \<open>(0.966, 0.259, 0, 0)\<close> with smoothing off: pitch and yaw are \<open>0\<close>; the roll is within
  \<open>0.001\<close> of \<open>0.5236\<close> and below the maximum tilt, which is within \<open>0.001\<close> of \<open>0.7854\<close>, so
  the roll is not clamped; the returned point is \<open>(sx, 300)\<close> with
  \<open>sx = 400 + roll * (800 / (2 * max_tilt))\<close>, the converter is left as it was, and
  \<open>666.88 < sx < 666.89\<close>, which is within \<open>0.2\<close> of the \<open>666.7\<close> the scenario names.
\<close>

theorem roll_thirty_degrees_scenario:
  "\<exists>c roll sx.
      QuaternionToScreen_init 800 600 45 = Inr c
    \<and> quaternion_to_euler (0.966, 0.259, 0, 0) = Inr (roll, 0, 0)
    \<and> \<bar>roll - 0.5236\<bar> < 0.001
    \<and> \<bar>max_tilt_radians c - 0.7854\<bar> < 0.001
    \<and> roll < max_tilt_radians c
    \<and> quaternion_to_screen_coords c (0.966, 0.259, 0, 0) False = Inr ((sx, 300), c)
    \<and> sx = 400 + roll * (800 / (2 * max_tilt_radians c))
    \<and> 666.88 < sx \<and> sx < 666.89
    \<and> \<bar>sx - 666.7\<bar> < 0.2"
proof -
  define c where "c = \<lparr> width = 800, height = 600, screen_center_x = 400, screen_center_y = 300,
           max_tilt_radians = pi / 4, sensitivity_x = 1600 / pi, sensitivity_y = 1200 / pi,
           alpha = 0.2, prev_x = 400, prev_y = 300, dead_zone = 1 \<rparr>"
  define roll :: real where "roll = arctan (250194 / 432919)"
  define sx where "sx = 400 + roll * (1600 / pi)"
  obtain d where d: "roll = pi / 6 + d" "429 / 1000000 < d" "d < 43 / 100000"
    using roll30_split by (auto simp: roll_def)
  have init: "QuaternionToScreen_init 800 600 45 = Inr c"
    by (simp add: QuaternionToScreen_init_default c_def)
  have e: "quaternion_to_euler (0.966, 0.259, 0, 0) = Inr (roll, 0, 0)"
    using euler_of_roll30 by (simp add: roll_def)
  have p6: "5235 / 10000 < pi / 6" "pi / 6 < 5237 / 10000"
    by (rule pi_sixth_bounds)+
  have rl: "5239 / 10000 < roll" and rh: "roll < 5242 / 10000"
    using d p6 by linarith+
  have r1: "\<bar>roll - 0.5236\<bar> < 0.001" using rl rh by simp
  have mt: "max_tilt_radians c = pi / 4" by (simp add: c_def)
  have "7852 / 10000 < pi / 4" "pi / 4 < 7856 / 10000"
    using p6 by linarith+
  then have "\<bar>pi / 4 - 7854 / 10000\<bar> < 1 / 1000"
    by linarith
  then have m1: "\<bar>max_tilt_radians c - 0.7854\<bar> < 0.001"
    unfolding mt by simp
  have r2: "roll < max_tilt_radians c"
    using rh p6 unfolding mt by linarith
  have sx_eq: "sx = 400 + 800 / 3 + d * 1600 / pi"
    by (simp add: sx_def d(1) field_simps)
  have "2184 / 10000 * pi < d * 1600"
    using d(2) pi_bounds(2) by linarith
  then have lo: "2184 / 10000 < d * 1600 / pi"
    by (simp add: pos_less_divide_eq)
  have "d * 1600 < 2191 / 10000 * pi"
    using d(3) pi_bounds(1) by linarith
  then have hi: "d * 1600 / pi < 2191 / 10000"
    by (simp add: pos_divide_less_eq)
  have "66688 / 100 < sx" "sx < 66689 / 100"
    using lo hi unfolding sx_eq by linarith+
  then have sx_lo: "666.88 < sx" and sx_hi: "sx < 666.89"
    by simp_all
  have sx_form: "sx = 400 + roll * (800 / (2 * max_tilt_radians c))"
    by (simp add: sx_def c_def)
  have clampr: "max (- (pi / 4)) (min (pi / 4) roll) = roll"
    using r2 rl unfolding mt by simp
  have raw: "euler_raw c (0.966, 0.259, 0, 0) = Inr (sx, 300)"
    unfolding euler_raw_def e using clampr by (simp add: c_def sx_def Let_def)
  have far: "dead_zone c \<le> sqrt ((sx - screen_center_x c) * (sx - screen_center_x c)
                      + (300 - screen_center_y c) * (300 - screen_center_y c))"
  proof -
    have "sqrt ((sx - 400) * (sx - 400)) = \<bar>sx - 400\<bar>"
      by (metis real_sqrt_abs2)
    then show ?thesis using sx_lo by (simp add: c_def)
  qed
  have "quaternion_to_screen_coords c (0.966, 0.259, 0, 0) False = Inr ((sx, 300), c)"
    unfolding screen_coords_is_euler_method euler_method_def raw
    using apply_post_processing_plain [OF far] sx_lo sx_hi
    by (simp add: clamp_to_screen_def c_def)
  moreover have "\<bar>sx - 666.7\<bar> < 0.2" using sx_lo sx_hi by simp
  ultimately show ?thesis
    using init e r1 m1 r2 sx_form sx_lo sx_hi by blast
qed

section \<open>Dead zones\<close>

lemma update_position_deadzone:
  assumes "prev_quaternion s = Some p" "normalize_quaternion q = Inr cq"
    and "calculate_delta_quaternion cq p = Inr d" "quaternion_to_euler d = Inr (r, pitch, yaw)"
  shows "update_position s q =
           accumulate s cq (if \<bar>yaw\<bar> < deadzone s then 0 else yaw * sensitivity s,
                            if \<bar>pitch\<bar> < deadzone s then 0 else - pitch * sensitivity s)"
  unfolding update_position_next [OF assms] by (simp add: deadzone_delta_def)

lemma identity_scenario:
  "\<exists>c0. QuaternionToScreen_init 800 600 45 = Inr c0
     \<and> quaternion_to_screen_coords c0 (1, 0, 0, 0) False = Inr ((400, 300), c0)"
proof -
  define c where "c = \<lparr> width = 800, height = 600, screen_center_x = 400, screen_center_y = 300,
           max_tilt_radians = pi / 4, sensitivity_x = 1600 / pi, sensitivity_y = 1200 / pi,
           alpha = 0.2, prev_x = 400, prev_y = 300, dead_zone = 1 \<rparr>"
  have init: "QuaternionToScreen_init 800 600 45 = Inr c"
    by (simp add: QuaternionToScreen_init_default c_def)
  have raw: "euler_raw c (1, 0, 0, 0) = Inr (400, 300)"
    by (simp add: euler_raw_def euler_of_identity c_def)
  have "quaternion_to_screen_coords c (1, 0, 0, 0) False = Inr ((400, 300), c)"
    unfolding screen_coords_is_euler_method euler_method_def raw
    by (simp add: apply_post_processing_def post_unclamped_eq clamp_to_screen_def c_def)
  with init show ?thesis by blast
qed

text \<open>
  C6, as amended. Absolute mode: a point whose Euclidean distance from the screen centre
  is strictly below \<open>dead_zone\<close> is replaced by the centre, so that without smoothing the
  point before the clamp is the centre, and for either smoothing flag
  \<open>apply_post_processing\<close> returns what it returns on the centre itself;
  \<open>quaternion_to_screen_coords\<close> of Euler.py post-processes its Euler point in the same
  way. Delta mode: the delta handed to the accumulation step has \<open>x\<close> component \<open>0\<close> when
  \<open>\<bar>yaw\<bar> < deadzone\<close> and \<open>y\<close> component \<open>0\<close> when \<open>\<bar>pitch\<bar> < deadzone\<close>; that delta is
  appended to the smoothing buffer, and the stored position becomes the old one plus the
  average of the buffer after the append, clamped per axis to \<open>[0, screen_width - 1]\<close> and
  \<open>[0, screen_height - 1]\<close>, the returned pair being its truncation. When both angles are
  below the threshold and the tracker is at rest (every buffered delta is \<open>(0, 0)\<close> and
  the stored position is unchanged by the clamp), the position does not move. The
  identity quaternion on \<open>QuaternionToScreen(800, 600, 45)\<close> without smoothing gives
  exactly \<open>(400, 300)\<close>.
\<close>

theorem deadzone_suppression:
  "(sqrt ((x0 - screen_center_x c) * (x0 - screen_center_x c)
          + (y0 - screen_center_y c) * (y0 - screen_center_y c)) < dead_zone c \<longrightarrow>
       post_unclamped c x0 y0 False = Inr ((screen_center_x c, screen_center_y c), c)
     \<and> apply_post_processing c x0 y0 use_smoothing =
         apply_post_processing c (screen_center_x c) (screen_center_y c) use_smoothing)
   \<and> quaternion_to_screen_coords c q use_smoothing =
       and_then (euler_raw c q) (\<lambda>(x, y). apply_post_processing c x y use_smoothing)
   \<and> (prev_quaternion s = Some p \<and> normalize_quaternion q' = Inr cq
      \<and> calculate_delta_quaternion cq p = Inr d \<and> quaternion_to_euler d = Inr (r, pitch, yaw) \<longrightarrow>
        update_position s q' =
          accumulate s cq (if \<bar>yaw\<bar> < deadzone s then 0 else yaw * sensitivity s,
                           if \<bar>pitch\<bar> < deadzone s then 0 else - pitch * sensitivity s)
      \<and> (\<exists>s' ax ay.
            update_position s q' = Inr ((py_int (screen_x s'), py_int (screen_y s')), s')
          \<and> delta_buffer s' =
              deque_append (smoothing_window s) (delta_buffer s)
                (if \<bar>yaw\<bar> < deadzone s then 0 else yaw * sensitivity s,
                 if \<bar>pitch\<bar> < deadzone s then 0 else - pitch * sensitivity s)
          \<and> buffer_average (delta_buffer s') = Inr (ax, ay)
          \<and> screen_x s' = max 0 (min (real_of_int (screen_width s - 1)) (screen_x s + ax))
          \<and> screen_y s' = max 0 (min (real_of_int (screen_height s - 1)) (screen_y s + ay)))
      \<and> (\<bar>pitch\<bar> < deadzone s \<and> \<bar>yaw\<bar> < deadzone s \<and> at_rest s \<longrightarrow>
            update_position s q' =
              Inr ((py_int (screen_x s), py_int (screen_y s)),
                   s\<lparr> delta_buffer := deque_append (smoothing_window s) (delta_buffer s) (0, 0),
                      prev_quaternion := Some cq \<rparr>)))
   \<and> (\<exists>c0. QuaternionToScreen_init 800 600 45 = Inr c0
          \<and> quaternion_to_screen_coords c0 (1, 0, 0, 0) False = Inr ((400, 300), c0))"
proof -
  have a: "post_unclamped c x0 y0 False = Inr ((screen_center_x c, screen_center_y c), c)
     \<and> apply_post_processing c x0 y0 use_smoothing =
         apply_post_processing c (screen_center_x c) (screen_center_y c) use_smoothing"
    if "sqrt ((x0 - screen_center_x c) * (x0 - screen_center_x c)
          + (y0 - screen_center_y c) * (y0 - screen_center_y c)) < dead_zone c"
    using that apply_post_processing_snap(1) [OF that] by (simp add: post_unclamped_eq)
  have b: "quaternion_to_screen_coords c q use_smoothing =
       and_then (euler_raw c q) (\<lambda>(x, y). apply_post_processing c x y use_smoothing)"
    by (simp add: screen_coords_is_euler_method euler_method_def)
  have d1: "update_position s q' =
          accumulate s cq (if \<bar>yaw\<bar> < deadzone s then 0 else yaw * sensitivity s,
                           if \<bar>pitch\<bar> < deadzone s then 0 else - pitch * sensitivity s)"
    if "prev_quaternion s = Some p" "normalize_quaternion q' = Inr cq"
      "calculate_delta_quaternion cq p = Inr d" "quaternion_to_euler d = Inr (r, pitch, yaw)"
    by (rule update_position_deadzone [OF that])
  have d3: "\<exists>s' ax ay.
            update_position s q' = Inr ((py_int (screen_x s'), py_int (screen_y s')), s')
          \<and> delta_buffer s' =
              deque_append (smoothing_window s) (delta_buffer s)
                (if \<bar>yaw\<bar> < deadzone s then 0 else yaw * sensitivity s,
                 if \<bar>pitch\<bar> < deadzone s then 0 else - pitch * sensitivity s)
          \<and> buffer_average (delta_buffer s') = Inr (ax, ay)
          \<and> screen_x s' = max 0 (min (real_of_int (screen_width s - 1)) (screen_x s + ax))
          \<and> screen_y s' = max 0 (min (real_of_int (screen_height s - 1)) (screen_y s + ay))"
    if "prev_quaternion s = Some p" "normalize_quaternion q' = Inr cq"
      "calculate_delta_quaternion cq p = Inr d" "quaternion_to_euler d = Inr (r, pitch, yaw)"
    unfolding d1 [OF that]
    using accumulate_shape_full
      [of s cq "(if \<bar>yaw\<bar> < deadzone s then 0 else yaw * sensitivity s,
                 if \<bar>pitch\<bar> < deadzone s then 0 else - pitch * sensitivity s)"]
    by blast
  have d2: "update_position s q' =
              Inr ((py_int (screen_x s), py_int (screen_y s)),
                   s\<lparr> delta_buffer := deque_append (smoothing_window s) (delta_buffer s) (0, 0),
                      prev_quaternion := Some cq \<rparr>)"
    if "prev_quaternion s = Some p" "normalize_quaternion q' = Inr cq"
      "calculate_delta_quaternion cq p = Inr d" "quaternion_to_euler d = Inr (r, pitch, yaw)"
      "\<bar>pitch\<bar> < deadzone s" "\<bar>yaw\<bar> < deadzone s" "at_rest s"
    using d1 [OF that(1-4)] that(5,6) accumulate_zero_at_rest [OF that(7)] by simp
  show ?thesis using a b d1 d2 d3 identity_scenario by (intro conjI impI) blast+
qed

section \<open>Clamping\<close>

lemma clamp_to_screen_range:
  assumes "0 \<le> width c" "0 \<le> height c"
  shows "0 \<le> fst (clamp_to_screen c p) \<and> fst (clamp_to_screen c p) \<le> width c
       \<and> 0 \<le> snd (clamp_to_screen c p) \<and> snd (clamp_to_screen c p) \<le> height c"
  using assms by (simp add: clamp_to_screen_def)

lemma clamp_to_screen_nearest:
  assumes "0 \<le> width c" "0 \<le> height c"
  shows "fst (clamp_to_screen c p) =
           (if fst p < 0 then 0 else if width c < fst p then width c else fst p)
       \<and> snd (clamp_to_screen c p) =
           (if snd p < 0 then 0 else if height c < snd p then height c else snd p)"
  using assms by (auto simp: clamp_to_screen_def)

lemma post_unclamped_Inr: "\<exists>p c'. post_unclamped c x0 y0 use_smoothing = Inr (p, c')"
  by (simp add: post_unclamped_eq Let_def split: prod.splits)

lemma apply_post_processing_clamped:
  assumes "0 \<le> width c" "0 \<le> height c"
  shows "\<exists>p c'. post_unclamped c x0 y0 use_smoothing = Inr (p, c')
      \<and> apply_post_processing c x0 y0 use_smoothing = Inr (clamp_to_screen c p, c')
      \<and> 0 \<le> fst (clamp_to_screen c p) \<and> fst (clamp_to_screen c p) \<le> width c
      \<and> 0 \<le> snd (clamp_to_screen c p) \<and> snd (clamp_to_screen c p) \<le> height c
      \<and> fst (clamp_to_screen c p) =
           (if fst p < 0 then 0 else if width c < fst p then width c else fst p)
      \<and> snd (clamp_to_screen c p) =
           (if snd p < 0 then 0 else if height c < snd p then height c else snd p)"
proof -
  obtain p c' where p: "post_unclamped c x0 y0 use_smoothing = Inr (p, c')"
    using post_unclamped_Inr by blast
  have "apply_post_processing c x0 y0 use_smoothing = Inr (clamp_to_screen c p, c')"
    by (simp add: apply_post_processing_def p)
  with p clamp_to_screen_range [OF assms, of p] clamp_to_screen_nearest [OF assms, of p]
  show ?thesis by blast
qed

lemma euler_raw_Inr: "\<exists>x0 y0. euler_raw c q = Inr (x0, y0)"
proof -
  obtain roll pitch yaw where e: "quaternion_to_euler q = Inr (roll, pitch, yaw)"
    using quaternion_to_euler_Inr by blast
  show ?thesis by (simp add: euler_raw_def e Let_def)
qed

lemma spherical_raw_Inr: "\<exists>x0 y0. spherical_raw c q = Inr (x0, y0)"
  by (cases q) (simp add: spherical_raw_def pitch_of_sinp_eq Let_def)

lemma euler_method_post:
  "\<exists>x0 y0. euler_method c q use_smoothing = apply_post_processing c x0 y0 use_smoothing"
proof -
  obtain x0 y0 where "euler_raw c q = Inr (x0, y0)"
    using euler_raw_Inr by blast
  then have "euler_method c q use_smoothing = apply_post_processing c x0 y0 use_smoothing"
    by (simp add: euler_method_def)
  then show ?thesis by blast
qed

lemma spherical_method_post:
  "\<exists>x0 y0. spherical_method c q use_smoothing = apply_post_processing c x0 y0 use_smoothing"
proof -
  obtain x0 y0 where "spherical_raw c q = Inr (x0, y0)"
    using spherical_raw_Inr by blast
  then have "spherical_method c q use_smoothing = apply_post_processing c x0 y0 use_smoothing"
    by (simp add: spherical_method_def)
  then show ?thesis by blast
qed

lemma direct_method_post:
  "\<exists>x0 y0. direct_method c q use_smoothing = apply_post_processing c x0 y0 use_smoothing"
  by (cases q) (auto simp: direct_method_def Let_def)

lemma rotation_matrix_method_post:
  "\<exists>x0 y0. rotation_matrix_method c q use_smoothing = apply_post_processing c x0 y0 use_smoothing"
  by (auto simp: rotation_matrix_method_def Let_def)

lemma apply_post_processing_no_smoothing_state:
  "\<exists>x y. apply_post_processing c x0 y0 False = Inr ((x, y), c)"
  by (simp add: apply_post_processing_def post_unclamped_eq clamp_to_screen_def Let_def
      split: prod.splits)

lemma hybrid_method_blend:
  "\<exists>ex ey sx sy.
      euler_method c q False = Inr ((ex, ey), c)
    \<and> spherical_method c q False = Inr ((sx, sy), c)
    \<and> hybrid_method c q use_smoothing =
        apply_post_processing c (ex * 0.8 + sx * 0.2) (ey * 0.8 + sy * 0.2) use_smoothing"
proof -
  obtain x0 y0 where e0: "euler_method c q False = apply_post_processing c x0 y0 False"
    using euler_method_post by blast
  obtain ex ey where e: "euler_method c q False = Inr ((ex, ey), c)"
    using apply_post_processing_no_smoothing_state [of c x0 y0] e0 by auto
  obtain x1 y1 where s0: "spherical_method c q False = apply_post_processing c x1 y1 False"
    using spherical_method_post by blast
  obtain sx sy where s: "spherical_method c q False = Inr ((sx, sy), c)"
    using apply_post_processing_no_smoothing_state [of c x1 y1] s0 by auto
  have "hybrid_method c q use_smoothing =
        apply_post_processing c (ex * 0.8 + sx * 0.2) (ey * 0.8 + sy * 0.2) use_smoothing"
    by (simp add: hybrid_method_def e s Let_def)
  with e s show ?thesis by blast
qed

lemma hybrid_method_post:
  "\<exists>x0 y0. hybrid_method c q use_smoothing = apply_post_processing c x0 y0 use_smoothing"
  using hybrid_method_blend [of c q use_smoothing] by blast

lemma screen_coords_post':
  "\<exists>x0 y0. quaternion_to_screen_coords c q use_smoothing = apply_post_processing c x0 y0 use_smoothing"
  unfolding screen_coords_is_euler_method by (rule euler_method_post)

lemma py_int_range:
  assumes "0 \<le> v" "v \<le> real_of_int n"
  shows "0 \<le> py_int v \<and> py_int v \<le> n"
  using assms by (simp add: py_int_def floor_le_iff le_floor_iff)

lemma clamp_pixel_nearest:
  "max 0 (min (real_of_int (n - 1)) v) =
     (if 1 \<le> n then (if v < 0 then 0 else if real_of_int (n - 1) < v then real_of_int (n - 1) else v)
      else 0)"
  by auto

lemma update_position_pixels:
  assumes "on_screen s"
  shows "\<exists>s'. update_position s q = Inr ((py_int (screen_x s'), py_int (screen_y s')), s')
      \<and> 0 \<le> py_int (screen_x s') \<and> py_int (screen_x s') \<le> screen_width s - 1
      \<and> 0 \<le> py_int (screen_y s') \<and> py_int (screen_y s') \<le> screen_height s - 1
      \<and> screen_width s' = screen_width s \<and> screen_height s' = screen_height s
      \<and> on_screen s'
      \<and> (case prev_quaternion s of
            None \<Rightarrow> screen_x s' = screen_x s \<and> screen_y s' = screen_y s
          | Some p \<Rightarrow>
              \<exists>d ax ay. delta_buffer s' = deque_append (smoothing_window s) (delta_buffer s) d
                \<and> buffer_average (delta_buffer s') = Inr (ax, ay)
                \<and> screen_x s' =
                    (if screen_x s + ax < 0 then 0
                     else if real_of_int (screen_width s - 1) < screen_x s + ax
                          then real_of_int (screen_width s - 1) else screen_x s + ax)
                \<and> screen_y s' =
                    (if screen_y s + ay < 0 then 0
                     else if real_of_int (screen_height s - 1) < screen_y s + ay
                          then real_of_int (screen_height s - 1) else screen_y s + ay))"
proof -
  from assms have W: "1 \<le> screen_width s" and H: "1 \<le> screen_height s"
    and x: "0 \<le> screen_x s" "screen_x s \<le> real_of_int (screen_width s - 1)"
    and y: "0 \<le> screen_y s" "screen_y s \<le> real_of_int (screen_height s - 1)"
    by (simp_all add: on_screen_def)
  obtain cq where cq: "normalize_quaternion q = Inr cq"
    using normalize_quaternion_Inr by blast
  show ?thesis
  proof (cases "prev_quaternion s")
    case None
    have "update_position s q =
           Inr ((py_int (screen_x s), py_int (screen_y s)), s\<lparr> prev_quaternion := Some cq \<rparr>)"
      by (rule update_position_first [OF None cq])
    moreover have "on_screen (s\<lparr> prev_quaternion := Some cq \<rparr>)"
      using assms by (simp add: on_screen_def)
    ultimately show ?thesis
      using None py_int_range [OF x] py_int_range [OF y] by simp
  next
    case (Some p)
    obtain d where d: "calculate_delta_quaternion cq p = Inr d"
      using calculate_delta_quaternion_Inr by blast
    obtain r pitch yaw where e: "quaternion_to_euler d = Inr (r, pitch, yaw)"
      using quaternion_to_euler_Inr by blast
    obtain s' ax ay where acc:
      "accumulate s cq (deadzone_delta s pitch yaw) = Inr ((py_int (screen_x s'), py_int (screen_y s')), s')"
      "delta_buffer s' = deque_append (smoothing_window s) (delta_buffer s) (deadzone_delta s pitch yaw)"
      "buffer_average (delta_buffer s') = Inr (ax, ay)"
      "screen_x s' = max 0 (min (real_of_int (screen_width s - 1)) (screen_x s + ax))"
      "screen_y s' = max 0 (min (real_of_int (screen_height s - 1)) (screen_y s + ay))"
      and dims: "screen_width s' = screen_width s" "screen_height s' = screen_height s"
      using accumulate_shape_full [of s cq "deadzone_delta s pitch yaw"] by blast
    have nx: "screen_x s' =
                    (if screen_x s + ax < 0 then 0
                     else if real_of_int (screen_width s - 1) < screen_x s + ax
                          then real_of_int (screen_width s - 1) else screen_x s + ax)"
      unfolding acc(4) clamp_pixel_nearest using W by simp
    have ny: "screen_y s' =
                    (if screen_y s + ay < 0 then 0
                     else if real_of_int (screen_height s - 1) < screen_y s + ay
                          then real_of_int (screen_height s - 1) else screen_y s + ay)"
      unfolding acc(5) clamp_pixel_nearest using H by simp
    have xr: "0 \<le> screen_x s'" "screen_x s' \<le> real_of_int (screen_width s - 1)"
      using W unfolding nx by auto
    have yr: "0 \<le> screen_y s'" "screen_y s' \<le> real_of_int (screen_height s - 1)"
      using H unfolding ny by auto
    have os: "on_screen s'"
      using W H xr yr by (simp add: on_screen_def dims)
    have up: "update_position s q = Inr ((py_int (screen_x s'), py_int (screen_y s')), s')"
      unfolding update_position_next [OF Some cq d e] by (rule acc(1))
    have tail: "\<exists>d ax ay. delta_buffer s' = deque_append (smoothing_window s) (delta_buffer s) d
                \<and> buffer_average (delta_buffer s') = Inr (ax, ay)
                \<and> screen_x s' =
                    (if screen_x s + ax < 0 then 0
                     else if real_of_int (screen_width s - 1) < screen_x s + ax
                          then real_of_int (screen_width s - 1) else screen_x s + ax)
                \<and> screen_y s' =
                    (if screen_y s + ay < 0 then 0
                     else if real_of_int (screen_height s - 1) < screen_y s + ay
                          then real_of_int (screen_height s - 1) else screen_y s + ay)"
      using acc(2,3) nx ny by blast
    show ?thesis
      using up py_int_range [OF xr] py_int_range [OF yr] dims os tail Some
      by (intro exI [of _ s']) simp
  qed
qed

text \<open>
  C2, as amended. On a converter whose width and height are not negative,
  \<open>apply_post_processing\<close> returns the point before the clamp with each axis clamped
  on its own to \<open>[0, width]\<close> and \<open>[0, height]\<close> (so a value outside lands exactly on the
  nearer bound), and each of the five strategies of comparing.py and
  \<open>quaternion_to_screen_coords\<close> of Euler.py returns what \<open>apply_post_processing\<close>
  returns on some point. The tracker clamps to the last pixel instead: in a state whose
  screen is at least one pixel each way and whose stored position lies in
  \<open>[0, screen_width - 1] \<times> [0, screen_height - 1]\<close>, \<open>update_position\<close> returns the
  truncation (\<open>int\<close>) of the new stored position, both coordinates of the returned pair
  lie in that same range, and the new state is such a state again. On the first sample
  the stored position is unchanged; on a later sample one delta is appended to the
  buffer and the new stored position is the old one plus the average of the buffer
  after the append, clamped per axis: \<open>0\<close> when the sum is negative, \<open>screen_width - 1\<close>
  (\<open>screen_height - 1\<close>) when the sum is beyond it, the sum itself otherwise. Freshly
  constructed and reset trackers are in such a state, and \<open>set_sensitivity\<close> keeps it.
\<close>

theorem outputs_clamped_to_screen:
  "(0 \<le> width c \<and> 0 \<le> height c \<longrightarrow>
      (\<exists>p c'. post_unclamped c x0 y0 use_smoothing = Inr (p, c')
         \<and> apply_post_processing c x0 y0 use_smoothing = Inr (clamp_to_screen c p, c')
         \<and> 0 \<le> fst (clamp_to_screen c p) \<and> fst (clamp_to_screen c p) \<le> width c
         \<and> 0 \<le> snd (clamp_to_screen c p) \<and> snd (clamp_to_screen c p) \<le> height c
         \<and> fst (clamp_to_screen c p) =
              (if fst p < 0 then 0 else if width c < fst p then width c else fst p)
         \<and> snd (clamp_to_screen c p) =
              (if snd p < 0 then 0 else if height c < snd p then height c else snd p)))
   \<and> (\<exists>x y. euler_method c q use_smoothing = apply_post_processing c x y use_smoothing)
   \<and> (\<exists>x y. direct_method c q use_smoothing = apply_post_processing c x y use_smoothing)
   \<and> (\<exists>x y. rotation_matrix_method c q use_smoothing = apply_post_processing c x y use_smoothing)
   \<and> (\<exists>x y. spherical_method c q use_smoothing = apply_post_processing c x y use_smoothing)
   \<and> (\<exists>x y. hybrid_method c q use_smoothing = apply_post_processing c x y use_smoothing)
   \<and> (\<exists>x y. quaternion_to_screen_coords c q use_smoothing = apply_post_processing c x y use_smoothing)
   \<and> (on_screen s \<longrightarrow>
        (\<exists>s'. update_position s q' = Inr ((py_int (screen_x s'), py_int (screen_y s')), s')
           \<and> 0 \<le> py_int (screen_x s') \<and> py_int (screen_x s') \<le> screen_width s - 1
           \<and> 0 \<le> py_int (screen_y s') \<and> py_int (screen_y s') \<le> screen_height s - 1
           \<and> screen_width s' = screen_width s \<and> screen_height s' = screen_height s
           \<and> on_screen s'
           \<and> (case prev_quaternion s of
                 None \<Rightarrow> screen_x s' = screen_x s \<and> screen_y s' = screen_y s
               | Some p \<Rightarrow>
                   \<exists>d ax ay. delta_buffer s' = deque_append (smoothing_window s) (delta_buffer s) d
                     \<and> buffer_average (delta_buffer s') = Inr (ax, ay)
                     \<and> screen_x s' =
                         (if screen_x s + ax < 0 then 0
                          else if real_of_int (screen_width s - 1) < screen_x s + ax
                               then real_of_int (screen_width s - 1) else screen_x s + ax)
                     \<and> screen_y s' =
                         (if screen_y s + ay < 0 then 0
                          else if real_of_int (screen_height s - 1) < screen_y s + ay
                               then real_of_int (screen_height s - 1) else screen_y s + ay))))
   \<and> (1 \<le> W \<and> 1 \<le> H \<and> motion_init W H sens win = Inr s0 \<longrightarrow> on_screen s0)
   \<and> (1 \<le> screen_width s \<and> 1 \<le> screen_height s \<longrightarrow> on_screen (reset_position s))
   \<and> (on_screen s \<longrightarrow> on_screen (set_sensitivity s v))"
proof -
  have i: "on_screen s0" if "1 \<le> W" "1 \<le> H" "motion_init W H sens win = Inr s0"
  proof -
    have "0 \<le> W div 2" "W div 2 \<le> W - 1" "0 \<le> H div 2" "H div 2 \<le> H - 1"
      using that(1,2) by auto
    then have "0 \<le> real_of_int (W div 2)" "real_of_int (W div 2) \<le> real_of_int (W - 1)"
      "0 \<le> real_of_int (H div 2)" "real_of_int (H div 2) \<le> real_of_int (H - 1)"
      by linarith+
    then show ?thesis
      using that by (auto simp: motion_init_def on_screen_def split: if_splits)
  qed
  have r: "on_screen (reset_position s)" if "1 \<le> screen_width s" "1 \<le> screen_height s"
  proof -
    have "0 \<le> screen_width s div 2" "screen_width s div 2 \<le> screen_width s - 1"
      "0 \<le> screen_height s div 2" "screen_height s div 2 \<le> screen_height s - 1"
      using that by auto
    then have "0 \<le> real_of_int (screen_width s div 2)"
      "real_of_int (screen_width s div 2) \<le> real_of_int (screen_width s - 1)"
      "0 \<le> real_of_int (screen_height s div 2)"
      "real_of_int (screen_height s div 2) \<le> real_of_int (screen_height s - 1)"
      by linarith+
    then show ?thesis
      using that by (simp add: reset_position_def on_screen_def)
  qed
  have v: "on_screen (set_sensitivity s v)" if "on_screen s"
    using that by (simp add: on_screen_def set_sensitivity_def)
  show ?thesis
    using apply_post_processing_clamped [of c x0 y0 use_smoothing]
      euler_method_post [of c q use_smoothing] direct_method_post [of c q use_smoothing]
      rotation_matrix_method_post [of c q use_smoothing]
      spherical_method_post [of c q use_smoothing] hybrid_method_post [of c q use_smoothing]
      screen_coords_post' [of c q use_smoothing]
      update_position_pixels [of s q'] i r v
    by (intro conjI impI) blast+
qed

section \<open>Concrete runs\<close>

lemma normalize_identity: "normalize_quaternion (1, 0, 0, 0) = Inr (1, 0, 0, 0)"
  by (simp add: normalize_quaternion_def np_linalg_norm_def np_divide_def)

lemma normalize_half_turn: "normalize_quaternion (0, 0, 0, 1) = Inr (0, 0, 0, 1)"
  by (simp add: normalize_quaternion_def np_linalg_norm_def np_divide_def)

lemma delta_half_turn: "calculate_delta_quaternion (0, 0, 0, 1) (1, 0, 0, 0) = Inr (0, 0, 0, 1)"
  by (simp add: calculate_delta_quaternion_def quaternion_multiply_def quaternion_conjugate_def
      normalize_half_turn)

lemma euler_half_turn: "quaternion_to_euler (0, 0, 0, 1) = Inr (0, 0, pi)"
  by (simp add: quaternion_to_euler_eq math_atan2_def)

lemma pi_gt_3: "3 < pi" and pi_lt_315: "pi < 315 / 100" and pi_gt_314: "314 / 100 < pi"
  using pi_bounds by linarith+

lemma py_int_floor:
  assumes "0 \<le> n" "real_of_int n \<le> v" "v < real_of_int n + 1"
  shows "py_int v = n"
proof -
  have "0 \<le> v" using assms(1,2) by linarith
  moreover have "\<lfloor>v\<rfloor> = n" using assms(2,3) by (simp add: floor_eq_iff)
  ultimately show ?thesis by (simp add: py_int_def)
qed

lemma default_tracker_half_turn:
  "update_position
     \<lparr> screen_width = 1920, screen_height = 1080, sensitivity = 500,
       prev_quaternion = Some (1, 0, 0, 0), smoothing_window = 5, delta_buffer = [],
       screen_x = 960, screen_y = 540, deadzone = 0.001 \<rparr>
     (0, 0, 0, 1) =
   Inr ((1919, 540),
        \<lparr> screen_width = 1920, screen_height = 1080, sensitivity = 500,
          prev_quaternion = Some (0, 0, 0, 1), smoothing_window = 5,
          delta_buffer = [(500 * pi, 0)],
          screen_x = 1919, screen_y = 540, deadzone = 0.001 \<rparr>)"
proof -
  define s1 where "s1 = \<lparr> screen_width = 1920, screen_height = 1080, sensitivity = 500,
       prev_quaternion = Some (1, 0, 0, 0), smoothing_window = 5, delta_buffer = [],
       screen_x = 960, screen_y = 540, deadzone = 0.001 \<rparr>"
  have p1: "prev_quaternion s1 = Some (1, 0, 0, 0)" by (simp add: s1_def)
  have dz: "deadzone_delta s1 0 pi = (500 * pi, 0)"
    using pi_gt_3 by (simp add: deadzone_delta_def s1_def)
  have buf: "deque_append (smoothing_window s1) (delta_buffer s1) (500 * pi, 0) = [(500 * pi, 0)]"
    by (simp add: deque_append_def s1_def)
  have a: "buffer_average (deque_append (smoothing_window s1) (delta_buffer s1) (500 * pi, 0))
             = Inr (500 * pi, 0)"
    by (simp add: buf buffer_average_eq)
  have far: "1920 < 960 + 500 * pi" using pi_gt_3 by simp
  have "update_position s1 (0, 0, 0, 1) =
   Inr ((1919, 540),
        \<lparr> screen_width = 1920, screen_height = 1080, sensitivity = 500,
          prev_quaternion = Some (0, 0, 0, 1), smoothing_window = 5,
          delta_buffer = [(500 * pi, 0)],
          screen_x = 1919, screen_y = 540, deadzone = 0.001 \<rparr>)"
    unfolding update_position_next [OF p1 normalize_half_turn delta_half_turn euler_half_turn] dz
      accumulate_eq [OF a] buf
    using far by (simp add: s1_def py_int_def)
  then show ?thesis by (simp add: s1_def)
qed

text \<open>
  C2 as stated fails on the tracker: with the default 1920 by 1080 screen and sensitivity
  500, a half turn about \<open>z\<close> after the identity gives the position \<open>960 + 500 \<pi>\<close> before
  the clamp, which is beyond the width 1920, and the returned \<open>x\<close> is \<open>1919\<close>, not \<open>1920\<close>.
\<close>

theorem tracker_clamps_to_last_pixel:
  "motion_init 1920 1080 500 5 =
     Inr \<lparr> screen_width = 1920, screen_height = 1080, sensitivity = 500,
           prev_quaternion = None, smoothing_window = 5, delta_buffer = [],
           screen_x = 960, screen_y = 540, deadzone = 0.001 \<rparr>
   \<and> feed \<lparr> screen_width = 1920, screen_height = 1080, sensitivity = 500,
             prev_quaternion = None, smoothing_window = 5, delta_buffer = [],
             screen_x = 960, screen_y = 540, deadzone = 0.001 \<rparr>
          [(1, 0, 0, 0), (0, 0, 0, 1)] =
     Inr ([(960, 540), (1919, 540)],
          \<lparr> screen_width = 1920, screen_height = 1080, sensitivity = 500,
            prev_quaternion = Some (0, 0, 0, 1), smoothing_window = 5,
            delta_buffer = [(500 * pi, 0)],
            screen_x = 1919, screen_y = 540, deadzone = 0.001 \<rparr>)
   \<and> buffer_average [(500 * pi, 0)] = Inr (500 * pi, 0)
   \<and> 1920 < 960 + 500 * pi"
proof -
  define s0 where "s0 = \<lparr> screen_width = 1920, screen_height = 1080, sensitivity = 500,
           prev_quaternion = None, smoothing_window = 5, delta_buffer = [],
           screen_x = 960, screen_y = 540, deadzone = 0.001 \<rparr>"
  define s1 where "s1 = s0\<lparr> prev_quaternion := Some (1, 0, 0, 0) \<rparr>"
  have init: "motion_init 1920 1080 500 5 = Inr s0"
    by (simp add: motion_init_def s0_def)
  have u1: "update_position s0 (1, 0, 0, 0) = Inr ((960, 540), s1)"
    using update_position_first [of s0, OF _ normalize_identity]
    by (simp add: s0_def s1_def py_int_def)
  have avg: "buffer_average [(500 * pi, 0)] = Inr (500 * pi, 0)"
    by (simp add: buffer_average_eq)
  have buf: "deque_append (smoothing_window s1) (delta_buffer s1) (500 * pi, 0) = [(500 * pi, 0)]"
    by (simp add: deque_append_def s1_def s0_def)
  have dz: "deadzone_delta s1 0 pi = (500 * pi, 0)"
    using pi_gt_3 by (simp add: deadzone_delta_def s1_def s0_def)
  have far: "1920 < 960 + 500 * pi" using pi_gt_3 by simp
  have u2: "update_position s1 (0, 0, 0, 1) =
     Inr ((1919, 540),
          \<lparr> screen_width = 1920, screen_height = 1080, sensitivity = 500,
            prev_quaternion = Some (0, 0, 0, 1), smoothing_window = 5,
            delta_buffer = [(500 * pi, 0)],
            screen_x = 1919, screen_y = 540, deadzone = 0.001 \<rparr>)"
  proof -
    have p1: "prev_quaternion s1 = Some (1, 0, 0, 0)" by (simp add: s1_def)
    have a: "buffer_average (deque_append (smoothing_window s1) (delta_buffer s1) (500 * pi, 0))
               = Inr (500 * pi, 0)"
      by (simp add: buf avg)
    show ?thesis
      unfolding update_position_next [OF p1 normalize_half_turn delta_half_turn euler_half_turn] dz
        accumulate_eq [OF a] buf
      using far by (simp add: s1_def s0_def py_int_def)
  qed
  show ?thesis
    using init u1 u2 avg far by (simp add: s0_def)
qed

theorem outputs_clamped_to_screen_witness:
  "apply_post_processing
      \<lparr> width = 800, height = 600, screen_center_x = 400, screen_center_y = 300,
        max_tilt_radians = pi / 4, sensitivity_x = 1600 / pi, sensitivity_y = 1200 / pi,
        alpha = 0.2, prev_x = 400, prev_y = 300, dead_zone = 1 \<rparr>
      900 (- 5) False =
     Inr ((800, 0),
          \<lparr> width = 800, height = 600, screen_center_x = 400, screen_center_y = 300,
            max_tilt_radians = pi / 4, sensitivity_x = 1600 / pi, sensitivity_y = 1200 / pi,
            alpha = 0.2, prev_x = 400, prev_y = 300, dead_zone = 1 \<rparr>)
   \<and> (\<exists>s0. motion_init 1920 1080 500 5 = Inr s0 \<and> on_screen s0)
   \<and> on_screen (reset_position
        \<lparr> screen_width = 1920, screen_height = 1080, sensitivity = 500,
          prev_quaternion = Some (1, 0, 0, 0), smoothing_window = 5, delta_buffer = [],
          screen_x = 960, screen_y = 540, deadzone = 0.001 \<rparr>)
   \<and> on_screen (set_sensitivity
        \<lparr> screen_width = 1920, screen_height = 1080, sensitivity = 500,
          prev_quaternion = Some (1, 0, 0, 0), smoothing_window = 5, delta_buffer = [],
          screen_x = 960, screen_y = 540, deadzone = 0.001 \<rparr> 300)
   \<and> (\<exists>s' ax ay.
         update_position
           \<lparr> screen_width = 1920, screen_height = 1080, sensitivity = 500,
             prev_quaternion = Some (1, 0, 0, 0), smoothing_window = 5, delta_buffer = [],
             screen_x = 960, screen_y = 540, deadzone = 0.001 \<rparr>
           (0, 0, 0, 1) = Inr ((1919, 540), s')
       \<and> py_int (screen_x s') = 1919 \<and> py_int (screen_y s') = 540
       \<and> on_screen s'
       \<and> buffer_average (delta_buffer s') = Inr (ax, ay)
       \<and> 1919 < 960 + ax
       \<and> screen_x s' = 1919)"
proof -
  define c where "c = \<lparr> width = 800, height = 600, screen_center_x = 400, screen_center_y = 300,
        max_tilt_radians = pi / 4, sensitivity_x = 1600 / pi, sensitivity_y = 1200 / pi,
        alpha = 0.2, prev_x = 400, prev_y = 300, dead_zone = 1 \<rparr>"
  define s0 where "s0 = \<lparr> screen_width = 1920, screen_height = 1080, sensitivity = 500,
           prev_quaternion = None, smoothing_window = 5, delta_buffer = [],
           screen_x = 960, screen_y = 540, deadzone = 0.001 \<rparr>"
  define s1 where "s1 = \<lparr> screen_width = 1920, screen_height = 1080, sensitivity = 500,
          prev_quaternion = Some (1, 0, 0, 0), smoothing_window = 5, delta_buffer = [],
          screen_x = 960, screen_y = 540, deadzone = 0.001 \<rparr>"
  define s2 where "s2 = \<lparr> screen_width = 1920, screen_height = 1080, sensitivity = 500,
          prev_quaternion = Some (0, 0, 0, 1), smoothing_window = 5,
          delta_buffer = [(500 * pi, 0)],
          screen_x = 1919, screen_y = 540, deadzone = 0.001 \<rparr>"
  note T = outputs_clamped_to_screen
      [of c 900 "- 5" False "(1, 0, 0, 0)" s1 "(0, 0, 0, 1)" 1920 1080 500 5 s0 300]
  have hc: "0 \<le> width c \<and> 0 \<le> height c" by (simp add: c_def)
  have init: "motion_init 1920 1080 500 5 = Inr s0"
    by (simp add: motion_init_def s0_def)
  have hi: "(1::int) \<le> 1920 \<and> (1::int) \<le> 1080 \<and> motion_init 1920 1080 500 5 = Inr s0"
    using init by simp
  have hr: "1 \<le> screen_width s1 \<and> 1 \<le> screen_height s1" by (simp add: s1_def)
  have os1: "on_screen s1" by (simp add: on_screen_def s1_def)
  have os0: "on_screen s0"
    by (rule T [THEN conjunct2, THEN conjunct2, THEN conjunct2, THEN conjunct2, THEN conjunct2,
          THEN conjunct2, THEN conjunct2, THEN conjunct2, THEN conjunct1, THEN mp, OF hi])
  have orr: "on_screen (reset_position s1)"
    by (rule T [THEN conjunct2, THEN conjunct2, THEN conjunct2, THEN conjunct2, THEN conjunct2,
          THEN conjunct2, THEN conjunct2, THEN conjunct2, THEN conjunct2, THEN conjunct1,
          THEN mp, OF hr])
  have ov: "on_screen (set_sensitivity s1 300)"
    by (rule T [THEN conjunct2, THEN conjunct2, THEN conjunct2, THEN conjunct2, THEN conjunct2,
          THEN conjunct2, THEN conjunct2, THEN conjunct2, THEN conjunct2, THEN conjunct2,
          THEN mp, OF os1])
  note U = T [THEN conjunct2, THEN conjunct2, THEN conjunct2, THEN conjunct2, THEN conjunct2,
          THEN conjunct2, THEN conjunct2, THEN conjunct1, THEN mp, OF os1]
  have run: "update_position s1 (0, 0, 0, 1) = Inr ((1919, 540), s2)"
    unfolding s1_def s2_def by (rule default_tracker_half_turn)
  have p1: "prev_quaternion s1 = Some (1, 0, 0, 0)" by (simp add: s1_def)
  have upd: "\<exists>s' ax ay. update_position s1 (0, 0, 0, 1) = Inr ((1919, 540), s')
       \<and> py_int (screen_x s') = 1919 \<and> py_int (screen_y s') = 540
       \<and> on_screen s'
       \<and> buffer_average (delta_buffer s') = Inr (ax, ay)
       \<and> 1919 < 960 + ax
       \<and> screen_x s' = 1919"
  proof -
    from U obtain s' where s':
      "update_position s1 (0, 0, 0, 1) = Inr ((py_int (screen_x s'), py_int (screen_y s')), s')"
      "on_screen s'"
      "case prev_quaternion s1 of
                 None \<Rightarrow> screen_x s' = screen_x s1 \<and> screen_y s' = screen_y s1
               | Some p \<Rightarrow>
                   \<exists>d ax ay. delta_buffer s' = deque_append (smoothing_window s1) (delta_buffer s1) d
                     \<and> buffer_average (delta_buffer s') = Inr (ax, ay)
                     \<and> screen_x s' =
                         (if screen_x s1 + ax < 0 then 0
                          else if real_of_int (screen_width s1 - 1) < screen_x s1 + ax
                               then real_of_int (screen_width s1 - 1) else screen_x s1 + ax)
                     \<and> screen_y s' =
                         (if screen_y s1 + ay < 0 then 0
                          else if real_of_int (screen_height s1 - 1) < screen_y s1 + ay
                               then real_of_int (screen_height s1 - 1) else screen_y s1 + ay)"
      by blast
    from s'(1) run have eq: "s' = s2" "py_int (screen_x s') = 1919" "py_int (screen_y s') = 540"
      by simp_all
    from s'(3) obtain ax ay where av: "buffer_average (delta_buffer s') = Inr (ax, ay)"
      unfolding p1 by auto
    have "buffer_average (delta_buffer s2) = Inr (500 * pi, 0)"
      by (simp add: s2_def buffer_average_eq)
    with av eq(1) have ax: "ax = 500 * pi" by simp
    have far: "1919 < 960 + ax" unfolding ax using pi_gt_3 by simp
    have sx: "screen_x s' = 1919" unfolding eq(1) by (simp add: s2_def)
    show ?thesis using run eq s'(2) av far sx by blast
  qed
  note A = T [THEN conjunct1, THEN mp, OF hc]
  have far: "dead_zone c \<le> sqrt ((900 - screen_center_x c) * (900 - screen_center_x c)
                      + (- 5 - screen_center_y c) * (- 5 - screen_center_y c))"
  proof -
    have "1 \<le> sqrt (343025 :: real)"
      by (rule real_le_rsqrt) simp
    then show ?thesis by (simp add: c_def)
  qed
  have pu: "post_unclamped c 900 (- 5) False = Inr ((900, - 5), c)"
    using far by (simp add: post_unclamped_eq)
  from A obtain p c' where
    "post_unclamped c 900 (- 5) False = Inr (p, c')"
    "apply_post_processing c 900 (- 5) False = Inr (clamp_to_screen c p, c')"
    "fst (clamp_to_screen c p) = (if fst p < 0 then 0 else if width c < fst p then width c else fst p)"
    "snd (clamp_to_screen c p) = (if snd p < 0 then 0 else if height c < snd p then height c else snd p)"
    by blast
  with pu have "apply_post_processing c 900 (- 5) False = Inr (clamp_to_screen c (900, - 5), c)"
    "fst (clamp_to_screen c (900, - 5)) = 800" "snd (clamp_to_screen c (900, - 5)) = 0"
    by (auto simp: c_def)
  then have app: "apply_post_processing c 900 (- 5) False = Inr ((800, 0), c)"
    by (metis prod.collapse)
  have i0: "\<exists>s0. motion_init 1920 1080 500 5 = Inr s0 \<and> on_screen s0"
    using init os0 by blast
  show ?thesis
    unfolding c_def [symmetric] s1_def [symmetric]
    using app i0 orr ov upd by (intro conjI)
qed

text \<open>
  C1 as stated fails once a rotation is in the smoothing buffer: on a 1200 by 800
  tracker of sensitivity 100, after the identity and a half turn about \<open>z\<close>, feeding the
  half turn a second time moves the returned position from \<open>914\<close> to \<open>1071\<close>.
\<close>

theorem repeated_sample_still_moves:
  "motion_init 1200 800 100 5 =
     Inr \<lparr> screen_width = 1200, screen_height = 800, sensitivity = 100,
           prev_quaternion = None, smoothing_window = 5, delta_buffer = [],
           screen_x = 600, screen_y = 400, deadzone = 0.001 \<rparr>
   \<and> feed \<lparr> screen_width = 1200, screen_height = 800, sensitivity = 100,
             prev_quaternion = None, smoothing_window = 5, delta_buffer = [],
             screen_x = 600, screen_y = 400, deadzone = 0.001 \<rparr>
          [(1, 0, 0, 0), (0, 0, 0, 1), (0, 0, 0, 1)] =
     Inr ([(600, 400), (914, 400), (1071, 400)],
          \<lparr> screen_width = 1200, screen_height = 800, sensitivity = 100,
            prev_quaternion = Some (0, 0, 0, 1), smoothing_window = 5,
            delta_buffer = [(100 * pi, 0), (0, 0)],
            screen_x = 600 + 150 * pi, screen_y = 400, deadzone = 0.001 \<rparr>)"
proof -
  define s0 where "s0 = \<lparr> screen_width = 1200, screen_height = 800, sensitivity = 100,
           prev_quaternion = None, smoothing_window = 5, delta_buffer = [],
           screen_x = 600, screen_y = 400, deadzone = 0.001 \<rparr>"
  define s1 where "s1 = s0\<lparr> prev_quaternion := Some (1, 0, 0, 0) \<rparr>"
  define s2 where "s2 = s0\<lparr> prev_quaternion := Some (0, 0, 0, 1),
                           delta_buffer := [(100 * pi, 0)], screen_x := 600 + 100 * pi \<rparr>"
  define s3 where "s3 = s0\<lparr> prev_quaternion := Some (0, 0, 0, 1),
                           delta_buffer := [(100 * pi, 0), (0, 0)], screen_x := 600 + 150 * pi \<rparr>"
  have init: "motion_init 1200 800 100 5 = Inr s0"
    by (simp add: motion_init_def s0_def)
  have u1: "update_position s0 (1, 0, 0, 0) = Inr ((600, 400), s1)"
    using update_position_first [of s0, OF _ normalize_identity]
    by (simp add: s0_def s1_def py_int_def)
  have i2: "py_int (600 + 100 * pi) = 914"
    by (rule py_int_floor) (use pi_gt_314 pi_lt_315 in simp_all)
  have i3: "py_int (600 + 150 * pi) = 1071"
    by (rule py_int_floor) (use pi_bounds in simp_all)
  have u2: "update_position s1 (0, 0, 0, 1) = Inr ((914, 400), s2)"
  proof -
    have p1: "prev_quaternion s1 = Some (1, 0, 0, 0)" by (simp add: s1_def)
    have dz: "deadzone_delta s1 0 pi = (100 * pi, 0)"
      using pi_gt_3 by (simp add: deadzone_delta_def s1_def s0_def)
    have buf: "deque_append (smoothing_window s1) (delta_buffer s1) (100 * pi, 0) = [(100 * pi, 0)]"
      by (simp add: deque_append_def s1_def s0_def)
    have a: "buffer_average (deque_append (smoothing_window s1) (delta_buffer s1) (100 * pi, 0))
               = Inr (100 * pi, 0)"
      by (simp add: buf buffer_average_eq)
    have x: "max 0 (min (real_of_int (screen_width s1 - 1)) (screen_x s1 + 100 * pi)) = 600 + 100 * pi"
      using pi_lt_315 by (simp add: s1_def s0_def)
    show ?thesis
      unfolding update_position_next [OF p1 normalize_half_turn delta_half_turn euler_half_turn] dz
        accumulate_eq [OF a] buf x i2
      by (simp add: s1_def s0_def s2_def py_int_def)
  qed
  have u3: "update_position s2 (0, 0, 0, 1) = Inr ((1071, 400), s3)"
  proof -
    have p2: "prev_quaternion s2 = Some (0, 0, 0, 1)" by (simp add: s2_def)
    have buf: "deque_append (smoothing_window s2) (delta_buffer s2) (0, 0) = [(100 * pi, 0), (0, 0)]"
      by (simp add: deque_append_def s2_def s0_def)
    have a: "buffer_average (deque_append (smoothing_window s2) (delta_buffer s2) (0, 0))
               = Inr (50 * pi, 0)"
      by (simp add: buf buffer_average_eq)
    have x: "max 0 (min (real_of_int (screen_width s2 - 1)) (screen_x s2 + 50 * pi)) = 600 + 150 * pi"
      using pi_lt_315 by (simp add: s2_def s0_def)
    show ?thesis
      unfolding update_position_same [OF p2 normalize_half_turn] accumulate_eq [OF a] buf x i3
      by (simp add: s2_def s0_def s3_def py_int_def)
  qed
  show ?thesis
    using init u1 u2 u3 by (simp add: s0_def s1_def s2_def s3_def)
qed

theorem repeated_sample_keeps_position_witness:
  "(\<exists>s'. feed \<lparr> screen_width = 1200, screen_height = 800, sensitivity = 300,
                 prev_quaternion = Some (0, 0, 0, 1), smoothing_window = 5,
                 delta_buffer = [(0, 0)], screen_x = 1401 / 2, screen_y = 400,
                 deadzone = 0.001 \<rparr>
              (replicate 3 (0, 0, 0, 1)) =
            Inr (replicate 3 (700, 400), s')
         \<and> screen_x s' = 1401 / 2 \<and> screen_y s' = 400 \<and> at_rest s')
   \<and> (\<exists>s'. feed (reset_position
                  \<lparr> screen_width = 1200, screen_height = 800, sensitivity = 300,
                    prev_quaternion = Some (1, 0, 0, 0), smoothing_window = 5,
                    delta_buffer = [(300 * pi, 0)], screen_x = 1199, screen_y = 400,
                    deadzone = 0.001 \<rparr>)
              (replicate 3 (0, 0, 0, 1)) =
            Inr (replicate 3 (600, 400), s')
         \<and> screen_x s' = 600 \<and> screen_y s' = 400)
   \<and> (\<exists>s0 s'. motion_init 1200 800 300 5 = Inr s0
         \<and> feed s0 (replicate 3 (0, 0, 0, 1)) = Inr (replicate 3 (600, 400), s')
         \<and> screen_x s' = 600 \<and> screen_y s' = 400)
   \<and> update_position
         \<lparr> screen_width = 1200, screen_height = 800, sensitivity = 300,
           prev_quaternion = Some (0, 0, 0, 1), smoothing_window = 5,
           delta_buffer = [(300 * pi, 0)], screen_x = 1199, screen_y = 400, deadzone = 0.001 \<rparr>
         (0, 0, 0, 1) =
       Inr ((1199, 400),
         \<lparr> screen_width = 1200, screen_height = 800, sensitivity = 300,
           prev_quaternion = Some (0, 0, 0, 1), smoothing_window = 5,
           delta_buffer = [(300 * pi, 0), (0, 0)], screen_x = 1199, screen_y = 400,
           deadzone = 0.001 \<rparr>)"
proof -
  define a where "a = \<lparr> screen_width = 1200, screen_height = 800, sensitivity = 300,
                 prev_quaternion = Some (0, 0, 0, 1), smoothing_window = 5,
                 delta_buffer = [(0, 0)], screen_x = 1401 / 2, screen_y = 400,
                 deadzone = 0.001 \<rparr>"
  define s0 where "s0 = \<lparr> screen_width = 1200, screen_height = 800, sensitivity = 300,
                 prev_quaternion = None, smoothing_window = 5, delta_buffer = [],
                 screen_x = 600, screen_y = 400, deadzone = 0.001 \<rparr>"
  define u where "u = \<lparr> screen_width = 1200, screen_height = 800, sensitivity = 300,
                    prev_quaternion = Some (1, 0, 0, 0), smoothing_window = 5,
                    delta_buffer = [(300 * pi, 0)], screen_x = 1199, screen_y = 400,
                    deadzone = 0.001 \<rparr>"
  define t where "t = \<lparr> screen_width = 1200, screen_height = 800, sensitivity = 300,
           prev_quaternion = Some (0, 0, 0, 1), smoothing_window = 5,
           delta_buffer = [(300 * pi, 0)], screen_x = 1199, screen_y = 400, deadzone = 0.001 \<rparr>"
  note T = repeated_sample_keeps_position
      [of a "(0, 0, 0, 1)" "(0, 0, 0, 1)" 3 u 1200 800 300 5 s0 t "(0, 0, 0, 1)"]
  have h0: "at_rest a
      \<and> (prev_quaternion a = None
           \<or> (prev_quaternion a = Some (0, 0, 0, 1)
               \<and> normalize_quaternion (0, 0, 0, 1) = Inr (0, 0, 0, 1)))"
    by (simp add: at_rest_def a_def normalize_half_turn)
  have h1: "0 \<le> screen_width u \<and> 0 \<le> screen_height u"
    by (simp add: u_def)
  have h2: "motion_init 1200 800 300 5 = Inr s0 \<and> (0::int) \<le> 1200 \<and> (0::int) \<le> 800"
    by (simp add: motion_init_def s0_def)
  have h3: "prev_quaternion t = Some (0, 0, 0, 1) \<and> normalize_quaternion (0, 0, 0, 1) = Inr (0, 0, 0, 1)"
    by (simp add: t_def normalize_half_turn)
  have pa: "screen_x a = 1401 / 2" "screen_y a = 400"
    by (simp_all add: a_def)
  have pi: "py_int (1401 / 2) = 700" "py_int 400 = 400"
    by (simp_all add: py_int_def)
  have du: "screen_width u div 2 = 600" "screen_height u div 2 = 400"
    by (simp_all add: u_def)
  have dn: "(1200::int) div 2 = 600" "(800::int) div 2 = 400"
    by simp_all
  note Z = T [THEN conjunct1, THEN mp, OF h0, unfolded pa pi]
  note A = T [THEN conjunct2, THEN conjunct1, THEN mp, OF h1, THEN conjunct2, unfolded du]
  note B = T [THEN conjunct2, THEN conjunct2, THEN conjunct1, THEN mp, OF h2, THEN conjunct2,
              THEN conjunct2, unfolded dn]
  note C = T [THEN conjunct2, THEN conjunct2, THEN conjunct2, THEN mp, OF h3, THEN conjunct1]
  from A have a': "\<exists>s'. feed (reset_position u) (replicate 3 (0, 0, 0, 1)) =
            Inr (replicate 3 (600, 400), s') \<and> screen_x s' = 600 \<and> screen_y s' = 400"
    by simp
  from B h2 have b: "\<exists>s0 s'. motion_init 1200 800 300 5 = Inr s0
         \<and> feed s0 (replicate 3 (0, 0, 0, 1)) = Inr (replicate 3 (600, 400), s')
         \<and> screen_x s' = 600 \<and> screen_y s' = 400"
    by auto
  have buf: "deque_append (smoothing_window t) (delta_buffer t) (0, 0) = [(300 * pi, 0), (0, 0)]"
    by (simp add: deque_append_def t_def)
  have av: "buffer_average (deque_append (smoothing_window t) (delta_buffer t) (0, 0))
              = Inr (150 * pi, 0)"
    by (simp add: buf buffer_average_eq)
  have x: "max 0 (min (real_of_int (screen_width t - 1)) (screen_x t + 150 * pi)) = 1199"
    using pi_gt_zero by (simp add: t_def)
  have c: "update_position t (0, 0, 0, 1) =
       Inr ((1199, 400),
         \<lparr> screen_width = 1200, screen_height = 800, sensitivity = 300,
           prev_quaternion = Some (0, 0, 0, 1), smoothing_window = 5,
           delta_buffer = [(300 * pi, 0), (0, 0)], screen_x = 1199, screen_y = 400,
           deadzone = 0.001 \<rparr>)"
    unfolding C accumulate_eq [OF av] buf x
    by (simp add: t_def py_int_def)
  show ?thesis
    unfolding a_def [symmetric] u_def [symmetric] t_def [symmetric]
    using Z a' b c by (intro conjI)
qed

lemma normalize_small_turn:
  "normalize_quaternion (24999999 / 25000001, 0, 0, 10000 / 25000001)
     = Inr (24999999 / 25000001, 0, 0, 10000 / 25000001)"
  by (simp add: normalize_quaternion_def np_linalg_norm_def np_divide_def)

lemma normalize_half_turn_plus:
  "normalize_quaternion (- (10000 / 25000001), 0, 0, 24999999 / 25000001)
     = Inr (- (10000 / 25000001), 0, 0, 24999999 / 25000001)"
  by (simp add: normalize_quaternion_def np_linalg_norm_def np_divide_def)

lemma delta_small_turn:
  "calculate_delta_quaternion (24999999 / 25000001, 0, 0, 10000 / 25000001) (1, 0, 0, 0)
     = Inr (24999999 / 25000001, 0, 0, 10000 / 25000001)"
  by (simp add: calculate_delta_quaternion_def quaternion_multiply_def quaternion_conjugate_def
      normalize_small_turn)

lemma delta_half_turn_plus:
  "calculate_delta_quaternion (- (10000 / 25000001), 0, 0, 24999999 / 25000001) (0, 0, 0, 1)
     = Inr (24999999 / 25000001, 0, 0, 10000 / 25000001)"
  by (simp add: calculate_delta_quaternion_def quaternion_multiply_def quaternion_conjugate_def
      normalize_small_turn)

lemma euler_small_turn:
  "quaternion_to_euler (24999999 / 25000001, 0, 0, 10000 / 25000001)
     = Inr (0, 0, arctan (499999980000 / 624999850000001))"
  by (simp add: quaternion_to_euler_eq math_atan2_def)

lemma small_yaw_bounds:
  "0 < arctan (499999980000 / 624999850000001)"
  "arctan (499999980000 / 624999850000001) < 1 / 1000"
proof -
  show "0 < arctan (499999980000 / 624999850000001)" by simp
  have "arctan (499999980000 / 624999850000001) < 499999980000 / 624999850000001"
    by (rule arctan_bounds_pos(2)) simp
  then show "arctan (499999980000 / 624999850000001) < 1 / 1000" by simp
qed

theorem deadzone_suppression_witness:
  "post_unclamped
      \<lparr> width = 800, height = 600, screen_center_x = 400, screen_center_y = 300,
        max_tilt_radians = pi / 4, sensitivity_x = 1600 / pi, sensitivity_y = 1200 / pi,
        alpha = 0.2, prev_x = 400, prev_y = 300, dead_zone = 1 \<rparr>
      (4005 / 10) 300 False =
     Inr ((400, 300),
          \<lparr> width = 800, height = 600, screen_center_x = 400, screen_center_y = 300,
            max_tilt_radians = pi / 4, sensitivity_x = 1600 / pi, sensitivity_y = 1200 / pi,
            alpha = 0.2, prev_x = 400, prev_y = 300, dead_zone = 1 \<rparr>)
   \<and> quaternion_to_euler (24999999 / 25000001, 0, 0, 10000 / 25000001)
        = Inr (0, 0, arctan (499999980000 / 624999850000001))
   \<and> 0 < arctan (499999980000 / 624999850000001)
   \<and> update_position
        \<lparr> screen_width = 1200, screen_height = 800, sensitivity = 300,
          prev_quaternion = Some (1, 0, 0, 0), smoothing_window = 5, delta_buffer = [],
          screen_x = 600, screen_y = 400, deadzone = 0.001 \<rparr>
        (24999999 / 25000001, 0, 0, 10000 / 25000001) =
       Inr ((600, 400),
            \<lparr> screen_width = 1200, screen_height = 800, sensitivity = 300,
              prev_quaternion = Some (24999999 / 25000001, 0, 0, 10000 / 25000001),
              smoothing_window = 5, delta_buffer = [(0, 0)],
              screen_x = 600, screen_y = 400, deadzone = 0.001 \<rparr>)"
proof -
  define c where "c = \<lparr> width = 800, height = 600, screen_center_x = 400, screen_center_y = 300,
        max_tilt_radians = pi / 4, sensitivity_x = 1600 / pi, sensitivity_y = 1200 / pi,
        alpha = 0.2, prev_x = 400, prev_y = 300, dead_zone = 1 \<rparr>"
  define s where "s = \<lparr> screen_width = 1200, screen_height = 800, sensitivity = 300,
          prev_quaternion = Some (1, 0, 0, 0), smoothing_window = 5, delta_buffer = [],
          screen_x = 600, screen_y = 400, deadzone = 0.001 \<rparr>"
  define g :: quat where "g = (24999999 / 25000001, 0, 0, 10000 / 25000001)"
  define yw :: real where "yw = arctan (499999980000 / 624999850000001)"
  note T = deadzone_suppression
      [of "4005 / 10" c 300 False "(1, 0, 0, 0)" s "(1, 0, 0, 0)" g g g 0 0 yw]
  have near: "sqrt ((4005 / 10 - screen_center_x c) * (4005 / 10 - screen_center_x c)
          + (300 - screen_center_y c) * (300 - screen_center_y c)) < dead_zone c"
  proof -
    have "sqrt ((1 / 2) * (1 / 2)) = \<bar>1 / 2 :: real\<bar>"
      by (rule real_sqrt_abs2)
    then show ?thesis by (simp add: c_def)
  qed
  have e: "quaternion_to_euler g = Inr (0, 0, yw)"
    unfolding g_def yw_def by (rule euler_small_turn)
  have h: "prev_quaternion s = Some (1, 0, 0, 0) \<and> normalize_quaternion g = Inr g
      \<and> calculate_delta_quaternion g (1, 0, 0, 0) = Inr g
      \<and> quaternion_to_euler g = Inr (0, 0, yw)"
    using e normalize_small_turn delta_small_turn by (simp add: s_def g_def)
  have yb: "0 < yw" "yw < 1 / 1000"
    using small_yaw_bounds by (simp_all add: yw_def)
  have small: "\<bar>0::real\<bar> < deadzone s \<and> \<bar>yw\<bar> < deadzone s \<and> at_rest s"
    using yb by (simp add: at_rest_def s_def)
  note A = T [THEN conjunct1, THEN mp, OF near, THEN conjunct1]
  note B = T [THEN conjunct2, THEN conjunct2, THEN conjunct1, THEN mp, OF h, THEN conjunct2,
              THEN conjunct2, THEN mp, OF small]
  have buf: "deque_append (smoothing_window s) (delta_buffer s) (0, 0) = [(0::real, 0::real)]"
    by (simp add: deque_append_def s_def)
  have a: "post_unclamped c (4005 / 10) 300 False = Inr ((400, 300), c)"
    using A by (simp add: c_def)
  have b: "update_position s g =
       Inr ((600, 400), s\<lparr> delta_buffer := [(0, 0)], prev_quaternion := Some g \<rparr>)"
    using B unfolding buf by (simp add: s_def py_int_def)
  have b': "update_position s g =
       Inr ((600, 400),
            \<lparr> screen_width = 1200, screen_height = 800, sensitivity = 300,
              prev_quaternion = Some g,
              smoothing_window = 5, delta_buffer = [(0, 0)],
              screen_x = 600, screen_y = 400, deadzone = 0.001 \<rparr>)"
    unfolding b by (simp add: s_def)
  show ?thesis
    using a e yb(1) b'
    unfolding c_def [symmetric] s_def [symmetric] g_def [symmetric] yw_def [symmetric]
    by (intro conjI)
qed

text \<open>
  C6 as stated fails in delta mode once a rotation is in the smoothing buffer: on a
  1200 by 800 tracker of sensitivity 50, after the identity and a half turn about \<open>z\<close>
  (returned \<open>x\<close>: \<open>600\<close>, \<open>757\<close>), a further turn about \<open>z\<close> by a yaw strictly between \<open>0\<close>
  and the dead zone \<open>0.001\<close> has its delta zeroed, and yet the returned \<open>x\<close> moves from
  \<open>757\<close> to \<open>835\<close>.
\<close>

theorem subthreshold_delta_still_moves:
  "feed \<lparr> screen_width = 1200, screen_height = 800, sensitivity = 50,
           prev_quaternion = None, smoothing_window = 5, delta_buffer = [],
           screen_x = 600, screen_y = 400, deadzone = 0.001 \<rparr>
        [(1, 0, 0, 0), (0, 0, 0, 1)] =
     Inr ([(600, 400), (757, 400)],
          \<lparr> screen_width = 1200, screen_height = 800, sensitivity = 50,
            prev_quaternion = Some (0, 0, 0, 1), smoothing_window = 5,
            delta_buffer = [(50 * pi, 0)],
            screen_x = 600 + 50 * pi, screen_y = 400, deadzone = 0.001 \<rparr>)
   \<and> calculate_delta_quaternion (- (10000 / 25000001), 0, 0, 24999999 / 25000001) (0, 0, 0, 1)
        = Inr (24999999 / 25000001, 0, 0, 10000 / 25000001)
   \<and> quaternion_to_euler (24999999 / 25000001, 0, 0, 10000 / 25000001)
        = Inr (0, 0, arctan (499999980000 / 624999850000001))
   \<and> 0 < arctan (499999980000 / 624999850000001)
   \<and> arctan (499999980000 / 624999850000001) < 1 / 1000
   \<and> update_position
        \<lparr> screen_width = 1200, screen_height = 800, sensitivity = 50,
          prev_quaternion = Some (0, 0, 0, 1), smoothing_window = 5,
          delta_buffer = [(50 * pi, 0)],
          screen_x = 600 + 50 * pi, screen_y = 400, deadzone = 0.001 \<rparr>
        (- (10000 / 25000001), 0, 0, 24999999 / 25000001) =
       Inr ((835, 400),
            \<lparr> screen_width = 1200, screen_height = 800, sensitivity = 50,
              prev_quaternion = Some (- (10000 / 25000001), 0, 0, 24999999 / 25000001),
              smoothing_window = 5,
              delta_buffer = [(50 * pi, 0), (0, 0)],
              screen_x = 600 + 75 * pi, screen_y = 400, deadzone = 0.001 \<rparr>)"
proof -
  define s0 where "s0 = \<lparr> screen_width = 1200, screen_height = 800, sensitivity = 50,
           prev_quaternion = None, smoothing_window = 5, delta_buffer = [],
           screen_x = 600, screen_y = 400, deadzone = 0.001 \<rparr>"
  define s1 where "s1 = s0\<lparr> prev_quaternion := Some (1, 0, 0, 0) \<rparr>"
  define s2 where "s2 = \<lparr> screen_width = 1200, screen_height = 800, sensitivity = 50,
            prev_quaternion = Some (0, 0, 0, 1), smoothing_window = 5,
            delta_buffer = [(50 * pi, 0)],
            screen_x = 600 + 50 * pi, screen_y = 400, deadzone = 0.001 \<rparr>"
  define h :: quat where "h = (- (10000 / 25000001), 0, 0, 24999999 / 25000001)"
  define g :: quat where "g = (24999999 / 25000001, 0, 0, 10000 / 25000001)"
  define yw :: real where "yw = arctan (499999980000 / 624999850000001)"
  define s3 where "s3 = \<lparr> screen_width = 1200, screen_height = 800, sensitivity = 50,
              prev_quaternion = Some h, smoothing_window = 5,
              delta_buffer = [(50 * pi, 0), (0, 0)],
              screen_x = 600 + 75 * pi, screen_y = 400, deadzone = 0.001 \<rparr>"
  have yb: "0 < yw" "yw < 1 / 1000"
    using small_yaw_bounds by (simp_all add: yw_def)
  have nh: "normalize_quaternion h = Inr h"
    unfolding h_def by (rule normalize_half_turn_plus)
  have dh: "calculate_delta_quaternion h (0, 0, 0, 1) = Inr g"
    unfolding h_def g_def by (rule delta_half_turn_plus)
  have eg: "quaternion_to_euler g = Inr (0, 0, yw)"
    unfolding g_def yw_def by (rule euler_small_turn)
  have u1: "update_position s0 (1, 0, 0, 0) = Inr ((600, 400), s1)"
    using update_position_first [of s0, OF _ normalize_identity]
    by (simp add: s0_def s1_def py_int_def)
  have i2: "py_int (600 + 50 * pi) = 757"
    by (rule py_int_floor) (use pi_gt_314 pi_lt_315 in simp_all)
  have i3: "py_int (600 + 75 * pi) = 835"
    by (rule py_int_floor) (use pi_bounds in simp_all)
  have u2: "update_position s1 (0, 0, 0, 1) = Inr ((757, 400), s2)"
  proof -
    have p1: "prev_quaternion s1 = Some (1, 0, 0, 0)" by (simp add: s1_def)
    have dz: "deadzone_delta s1 0 pi = (50 * pi, 0)"
      using pi_gt_3 by (simp add: deadzone_delta_def s1_def s0_def)
    have buf: "deque_append (smoothing_window s1) (delta_buffer s1) (50 * pi, 0) = [(50 * pi, 0)]"
      by (simp add: deque_append_def s1_def s0_def)
    have a: "buffer_average (deque_append (smoothing_window s1) (delta_buffer s1) (50 * pi, 0))
               = Inr (50 * pi, 0)"
      by (simp add: buf buffer_average_eq)
    have x: "max 0 (min (real_of_int (screen_width s1 - 1)) (screen_x s1 + 50 * pi)) = 600 + 50 * pi"
      using pi_lt_315 by (simp add: s1_def s0_def)
    show ?thesis
      unfolding update_position_next [OF p1 normalize_half_turn delta_half_turn euler_half_turn] dz
        accumulate_eq [OF a] buf x i2
      by (simp add: s1_def s0_def s2_def py_int_def)
  qed
  have u3: "update_position s2 h = Inr ((835, 400), s3)"
  proof -
    have p2: "prev_quaternion s2 = Some (0, 0, 0, 1)" by (simp add: s2_def)
    have dz: "deadzone_delta s2 0 yw = (0, 0)"
      using yb by (simp add: deadzone_delta_def s2_def)
    have buf: "deque_append (smoothing_window s2) (delta_buffer s2) (0, 0) = [(50 * pi, 0), (0, 0)]"
      by (simp add: deque_append_def s2_def)
    have a: "buffer_average (deque_append (smoothing_window s2) (delta_buffer s2) (0, 0))
               = Inr (25 * pi, 0)"
      by (simp add: buf buffer_average_eq)
    have x: "max 0 (min (real_of_int (screen_width s2 - 1)) (screen_x s2 + 25 * pi)) = 600 + 75 * pi"
      using pi_lt_315 by (simp add: s2_def)
    show ?thesis
      unfolding update_position_next [OF p2 nh dh eg] dz accumulate_eq [OF a] buf x i3
      by (simp add: s2_def s3_def py_int_def)
  qed
  have f: "feed s0 [(1, 0, 0, 0), (0, 0, 0, 1)] = Inr ([(600, 400), (757, 400)], s2)"
    using u1 u2 by simp
  show ?thesis
    using f dh eg yb u3
    unfolding s0_def s2_def s3_def h_def g_def yw_def by (intro conjI)
qed

lemma ImprovedQuaternionConverter_init_default:
  "ImprovedQuaternionConverter_init 100 100 45 =
     Inr \<lparr> width = 100, height = 100, screen_center_x = 50, screen_center_y = 50,
           max_tilt_radians = pi / 4, sensitivity_x = 200 / pi, sensitivity_y = 200 / pi,
           alpha = 0.7, prev_x = 50, prev_y = 50, dead_zone = 10 \<rparr>"
  by (simp add: ImprovedQuaternionConverter_init_def converter_init_def math_radians_def
      py_truediv_def)

lemma sqrt_square_line: "sqrt (a * a + (0::real) * 0) = \<bar>a\<bar>"
  by (simp add: real_sqrt_abs2)

lemma hybrid_method_eq:
  assumes "euler_method c q False = Inr ((ex, ey), c)"
    and "spherical_method c q False = Inr ((sx, sy), c)"
  shows "hybrid_method c q use_smoothing =
           apply_post_processing c (ex * 0.8 + sx * 0.2) (ey * 0.8 + sy * 0.2) use_smoothing"
  by (simp add: hybrid_method_def assms Let_def)

section \<open>The hybrid strategy\<close>

text \<open>
  C7, as amended. \<open>hybrid_method\<close> returns the post-processing (dead zone, optional
  smoothing, clamp) of \<open>0.8 E + 0.2 S\<close>, where \<open>E\<close> and \<open>S\<close> are what \<open>euler_method\<close> and
  \<open>spherical_method\<close> return with smoothing off, that is each strategy's point after its
  own dead zone and clamp; the two inner calls leave the converter unchanged. When both
  strategies' points before post-processing lie outside the dead zone and on the
  screen, this is the post-processing of the blend of those points.
\<close>

theorem hybrid_blends_processed_outputs:
  "(\<exists>ex ey sx sy.
       euler_method c q False = Inr ((ex, ey), c)
     \<and> spherical_method c q False = Inr ((sx, sy), c)
     \<and> hybrid_method c q use_smoothing =
         apply_post_processing c (ex * 0.8 + sx * 0.2) (ey * 0.8 + sy * 0.2) use_smoothing)
   \<and> (euler_raw c q = Inr (rx, ry) \<and> spherical_raw c q = Inr (tx, ty)
      \<and> dead_zone c \<le> sqrt ((rx - screen_center_x c) * (rx - screen_center_x c)
                              + (ry - screen_center_y c) * (ry - screen_center_y c))
      \<and> dead_zone c \<le> sqrt ((tx - screen_center_x c) * (tx - screen_center_x c)
                              + (ty - screen_center_y c) * (ty - screen_center_y c))
      \<and> clamp_to_screen c (rx, ry) = (rx, ry) \<and> clamp_to_screen c (tx, ty) = (tx, ty)
      \<longrightarrow> hybrid_method c q use_smoothing =
            apply_post_processing c (rx * 0.8 + tx * 0.2) (ry * 0.8 + ty * 0.2) use_smoothing)"
proof -
  have b: "hybrid_method c q use_smoothing =
            apply_post_processing c (rx * 0.8 + tx * 0.2) (ry * 0.8 + ty * 0.2) use_smoothing"
    if r: "euler_raw c q = Inr (rx, ry)" and t: "spherical_raw c q = Inr (tx, ty)"
      and fr: "dead_zone c \<le> sqrt ((rx - screen_center_x c) * (rx - screen_center_x c)
                              + (ry - screen_center_y c) * (ry - screen_center_y c))"
      and ft: "dead_zone c \<le> sqrt ((tx - screen_center_x c) * (tx - screen_center_x c)
                              + (ty - screen_center_y c) * (ty - screen_center_y c))"
      and cr: "clamp_to_screen c (rx, ry) = (rx, ry)" and ct: "clamp_to_screen c (tx, ty) = (tx, ty)"
  proof -
    have e: "euler_method c q False = Inr ((rx, ry), c)"
      by (simp add: euler_method_def r apply_post_processing_plain [OF fr] cr)
    have s: "spherical_method c q False = Inr ((tx, ty), c)"
      by (simp add: spherical_method_def t apply_post_processing_plain [OF ft] ct)
    show ?thesis by (simp add: hybrid_method_def e s Let_def)
  qed
  show ?thesis using hybrid_method_blend [of c q use_smoothing] b by blast
qed

theorem hybrid_blends_processed_outputs_witness:
  "hybrid_method
     \<lparr> width = 100, height = 100, screen_center_x = 50, screen_center_y = 50,
       max_tilt_radians = pi / 4, sensitivity_x = 200 / pi, sensitivity_y = 200 / pi,
       alpha = 0.7, prev_x = 50, prev_y = 50, dead_zone = 10 \<rparr>
     (1 / 2, 1 / 2, 1 / 2, 1 / 2) False =
   Inr ((100, 50),
        \<lparr> width = 100, height = 100, screen_center_x = 50, screen_center_y = 50,
          max_tilt_radians = pi / 4, sensitivity_x = 200 / pi, sensitivity_y = 200 / pi,
          alpha = 0.7, prev_x = 50, prev_y = 50, dead_zone = 10 \<rparr>)"
proof -
  define c where "c = \<lparr> width = 100, height = 100, screen_center_x = 50, screen_center_y = 50,
       max_tilt_radians = pi / 4, sensitivity_x = 200 / pi, sensitivity_y = 200 / pi,
       alpha = 0.7, prev_x = 50, prev_y = 50, dead_zone = 10 \<rparr>"
  have e: "quaternion_to_euler (1 / 2, 1 / 2, 1 / 2, 1 / 2) = Inr (pi / 2, 0, pi / 2)"
    by (simp add: quaternion_to_euler_eq math_atan2_def)
  have r: "euler_raw c (1 / 2, 1 / 2, 1 / 2, 1 / 2) = Inr (100, 50)"
    unfolding euler_raw_def e by (simp add: c_def Let_def)
  have t: "spherical_raw c (1 / 2, 1 / 2, 1 / 2, 1 / 2) = Inr (100, 50)"
    by (simp add: spherical_raw_def pitch_of_sinp_eq math_atan2_def c_def Let_def)
  have far: "dead_zone c \<le> sqrt ((100 - screen_center_x c) * (100 - screen_center_x c)
                              + (50 - screen_center_y c) * (50 - screen_center_y c))"
    by (simp add: c_def sqrt_square_line)
  have cl: "clamp_to_screen c (100, 50) = (100, 50)"
    by (simp add: clamp_to_screen_def c_def)
  have h: "euler_raw c (1 / 2, 1 / 2, 1 / 2, 1 / 2) = Inr (100, 50)
      \<and> spherical_raw c (1 / 2, 1 / 2, 1 / 2, 1 / 2) = Inr (100, 50)
      \<and> dead_zone c \<le> sqrt ((100 - screen_center_x c) * (100 - screen_center_x c)
                              + (50 - screen_center_y c) * (50 - screen_center_y c))
      \<and> dead_zone c \<le> sqrt ((100 - screen_center_x c) * (100 - screen_center_x c)
                              + (50 - screen_center_y c) * (50 - screen_center_y c))
      \<and> clamp_to_screen c (100, 50) = (100, 50) \<and> clamp_to_screen c (100, 50) = (100, 50)"
    using r t far cl by simp
  note A = hybrid_blends_processed_outputs
      [of c "(1 / 2, 1 / 2, 1 / 2, 1 / 2)" False 100 50 100 50, THEN conjunct2, THEN mp, OF h]
  have far2: "dead_zone c \<le> sqrt ((100 * 0.8 + 100 * 0.2 - screen_center_x c) * (100 * 0.8 + 100 * 0.2 - screen_center_x c)
                              + (50 * 0.8 + 50 * 0.2 - screen_center_y c) * (50 * 0.8 + 50 * 0.2 - screen_center_y c))"
    by (simp add: c_def sqrt_square_line)
  have "clamp_to_screen c (100 * 0.8 + 100 * 0.2, 50 * 0.8 + 50 * 0.2) = (100, 50)"
    by (simp add: clamp_to_screen_def c_def)
  then have "hybrid_method c (1 / 2, 1 / 2, 1 / 2, 1 / 2) False = Inr ((100, 50), c)"
    unfolding A apply_post_processing_plain [OF far2] by simp
  then show ?thesis by (simp add: c_def)
qed

text \<open>
  C7 as stated fails when one candidate lies in the dead zone: on the default converter
  of comparing.py and the unit quaternion \<open>(41, 41, 1, 1) / 58\<close> the Euler point is
  \<open>(100, 50)\<close> and the spherical point is \<open>(50 + 200 arctan (41/840) / \<pi>, 50)\<close>, about three
  pixels from the centre; \<open>hybrid_method\<close> returns \<open>(90, 50)\<close>, while post-processing the
  blend of the two points gives an \<open>x\<close> beyond \<open>90\<close>.
\<close>

theorem hybrid_not_blend_of_raw:
  "ImprovedQuaternionConverter_init 100 100 45 =
     Inr \<lparr> width = 100, height = 100, screen_center_x = 50, screen_center_y = 50,
           max_tilt_radians = pi / 4, sensitivity_x = 200 / pi, sensitivity_y = 200 / pi,
           alpha = 0.7, prev_x = 50, prev_y = 50, dead_zone = 10 \<rparr>
   \<and> np_linalg_norm (41 / 58, 41 / 58, 1 / 58, 1 / 58) = 1
   \<and> euler_raw
        \<lparr> width = 100, height = 100, screen_center_x = 50, screen_center_y = 50,
          max_tilt_radians = pi / 4, sensitivity_x = 200 / pi, sensitivity_y = 200 / pi,
          alpha = 0.7, prev_x = 50, prev_y = 50, dead_zone = 10 \<rparr>
        (41 / 58, 41 / 58, 1 / 58, 1 / 58) = Inr (100, 50)
   \<and> spherical_raw
        \<lparr> width = 100, height = 100, screen_center_x = 50, screen_center_y = 50,
          max_tilt_radians = pi / 4, sensitivity_x = 200 / pi, sensitivity_y = 200 / pi,
          alpha = 0.7, prev_x = 50, prev_y = 50, dead_zone = 10 \<rparr>
        (41 / 58, 41 / 58, 1 / 58, 1 / 58) = Inr (50 + arctan (41 / 840) * (200 / pi), 50)
   \<and> hybrid_method
        \<lparr> width = 100, height = 100, screen_center_x = 50, screen_center_y = 50,
          max_tilt_radians = pi / 4, sensitivity_x = 200 / pi, sensitivity_y = 200 / pi,
          alpha = 0.7, prev_x = 50, prev_y = 50, dead_zone = 10 \<rparr>
        (41 / 58, 41 / 58, 1 / 58, 1 / 58) False =
       Inr ((90, 50),
            \<lparr> width = 100, height = 100, screen_center_x = 50, screen_center_y = 50,
              max_tilt_radians = pi / 4, sensitivity_x = 200 / pi, sensitivity_y = 200 / pi,
              alpha = 0.7, prev_x = 50, prev_y = 50, dead_zone = 10 \<rparr>)
   \<and> apply_post_processing
        \<lparr> width = 100, height = 100, screen_center_x = 50, screen_center_y = 50,
          max_tilt_radians = pi / 4, sensitivity_x = 200 / pi, sensitivity_y = 200 / pi,
          alpha = 0.7, prev_x = 50, prev_y = 50, dead_zone = 10 \<rparr>
        (100 * 0.8 + (50 + arctan (41 / 840) * (200 / pi)) * 0.2) (50 * 0.8 + 50 * 0.2) False =
       Inr ((90 + 40 * arctan (41 / 840) / pi, 50),
            \<lparr> width = 100, height = 100, screen_center_x = 50, screen_center_y = 50,
              max_tilt_radians = pi / 4, sensitivity_x = 200 / pi, sensitivity_y = 200 / pi,
              alpha = 0.7, prev_x = 50, prev_y = 50, dead_zone = 10 \<rparr>)
   \<and> 90 < 90 + 40 * arctan (41 / 840) / pi"
proof -
  define c where "c = \<lparr> width = 100, height = 100, screen_center_x = 50, screen_center_y = 50,
       max_tilt_radians = pi / 4, sensitivity_x = 200 / pi, sensitivity_y = 200 / pi,
       alpha = 0.7, prev_x = 50, prev_y = 50, dead_zone = 10 \<rparr>"
  define a :: real where "a = arctan (41 / 840)"
  define q :: quat where "q = (41 / 58, 41 / 58, 1 / 58, 1 / 58)"
  have a_pos: "0 < a" and a_small: "a < 41 / 840"
    using arctan_bounds_pos(2) [of "41 / 840"] by (simp_all add: a_def)
  have unit: "np_linalg_norm q = 1"
    by (simp add: np_linalg_norm_def q_def)
  have e: "quaternion_to_euler q = Inr (pi / 2, 0, a)"
    by (simp add: quaternion_to_euler_eq math_atan2_def a_def q_def)
  have r: "euler_raw c q = Inr (100, 50)"
    unfolding euler_raw_def e by (simp add: c_def Let_def)
  have a_tilt: "max (- (pi / 4)) (min (pi / 4) a) = a"
    using a_pos a_small pi_gt_3 by simp
  have t: "spherical_raw c q = Inr (50 + a * (200 / pi), 50)"
    using a_tilt by (simp add: spherical_raw_def pitch_of_sinp_eq math_atan2_def c_def Let_def a_def q_def)
  have off: "0 < a * (200 / pi)" "a * (200 / pi) < 10"
  proof -
    show "0 < a * (200 / pi)" using a_pos by simp
    have "a * 200 < 10 * pi" using a_small pi_gt_3 by linarith
    then show "a * (200 / pi) < 10" by (simp add: pos_divide_less_eq)
  qed
  have em: "euler_method c q False = Inr ((100, 50), c)"
  proof -
    have far: "dead_zone c \<le> sqrt ((100 - screen_center_x c) * (100 - screen_center_x c)
                              + (50 - screen_center_y c) * (50 - screen_center_y c))"
      by (simp add: c_def sqrt_square_line)
    have "clamp_to_screen c (100, 50) = (100, 50)"
      by (simp add: clamp_to_screen_def c_def)
    then show ?thesis
      unfolding euler_method_def r by (simp add: apply_post_processing_plain [OF far])
  qed
  have sm: "spherical_method c q False = Inr ((50, 50), c)"
  proof -
    have near: "sqrt ((50 + a * (200 / pi) - screen_center_x c) * (50 + a * (200 / pi) - screen_center_x c)
                              + (50 - screen_center_y c) * (50 - screen_center_y c)) < dead_zone c"
      using off sqrt_square_line [of "a * (200 / pi)"] by (simp add: c_def)
    have cl: "clamp_to_screen c (screen_center_x c, screen_center_y c) = (50, 50)"
      by (simp add: clamp_to_screen_def c_def)
    have "spherical_method c q False = apply_post_processing c (50 + a * (200 / pi)) 50 False"
      unfolding spherical_method_def t by (simp only: and_then_simps prod.case)
    also have "\<dots> = Inr (clamp_to_screen c (screen_center_x c, screen_center_y c), c)"
      by (rule apply_post_processing_snap(2) [OF near])
    finally show ?thesis unfolding cl .
  qed
  have hy: "hybrid_method c q False = Inr ((90, 50), c)"
  proof -
    have far: "dead_zone c \<le> sqrt ((100 * 0.8 + 50 * 0.2 - screen_center_x c) * (100 * 0.8 + 50 * 0.2 - screen_center_x c)
                              + (50 * 0.8 + 50 * 0.2 - screen_center_y c) * (50 * 0.8 + 50 * 0.2 - screen_center_y c))"
      by (simp add: c_def sqrt_square_line)
    have cl: "clamp_to_screen c (100 * 0.8 + 50 * 0.2, 50 * 0.8 + 50 * 0.2) = (90, 50)"
      by (simp add: clamp_to_screen_def c_def)
    show ?thesis
      unfolding hybrid_method_eq [OF em sm] apply_post_processing_plain [OF far] cl ..
  qed
  have blend: "100 * 0.8 + (50 + a * (200 / pi)) * 0.2 = 90 + 40 * a / pi"
    by simp
  have rawblend: "apply_post_processing c (100 * 0.8 + (50 + a * (200 / pi)) * 0.2) (50 * 0.8 + 50 * 0.2) False
       = Inr ((90 + 40 * a / pi, 50), c)"
  proof -
    have o: "0 < 40 * a / pi" "40 * a / pi < 2"
      using off by (simp_all add: field_simps)
    have far: "dead_zone c \<le> sqrt ((90 + 40 * a / pi - screen_center_x c) * (90 + 40 * a / pi - screen_center_x c)
                              + (50 - screen_center_y c) * (50 - screen_center_y c))"
      using o sqrt_square_line [of "40 + 40 * a / pi"] by (simp add: c_def)
    have "clamp_to_screen c (90 + 40 * a / pi, 50) = (90 + 40 * a / pi, 50)"
      using o by (simp add: clamp_to_screen_def c_def)
    then have "apply_post_processing c (90 + 40 * a / pi) 50 False = Inr ((90 + 40 * a / pi, 50), c)"
      unfolding apply_post_processing_plain [OF far] by simp
    then show ?thesis unfolding blend by simp
  qed
  have diff: "90 < 90 + 40 * a / pi" using a_pos by simp
  show ?thesis
    using ImprovedQuaternionConverter_init_default unit r t hy rawblend diff
    unfolding c_def a_def q_def by (intro conjI)
qed

end
